theory Spec2Isabelle
  imports Complex_Main "HOL-Library.Sublist" "HOL-Library.AList"
begin

section \<open>Port scanner backend (backend.py): a shallow embedding\<close>

text \<open>
  The embedding follows \<^verbatim>\<open>src/backend.py\<close> function by function. Network input and
  output (\<^verbatim>\<open>requests.get\<close>, \<^verbatim>\<open>socket.connect_ex\<close>), the clock and the UUID generator
  are not computed by the program: they are read from an explicit environment, so every
  function below is a pure function of its arguments and of that environment.
  Python floats that hold durations are modelled as rationals; an address object of the
  \<^verbatim>\<open>ipaddress\<close> module is modelled by its integer value, which also stands for \<^verbatim>\<open>str(ip)\<close>.
\<close>

subsection \<open>HTTP requests through a proxy\<close>

text \<open>
  The exceptions of the \<^verbatim>\<open>requests\<close> library that the handlers tell apart. In that
  library \<^verbatim>\<open>ProxyError\<close>, \<^verbatim>\<open>SSLError\<close> and \<^verbatim>\<open>ConnectTimeout\<close> are subclasses of
  \<^verbatim>\<open>ConnectionError\<close>, and \<^verbatim>\<open>ConnectTimeout\<close> and \<^verbatim>\<open>ReadTimeout\<close> are subclasses of
  \<^verbatim>\<open>Timeout\<close>; \<open>OtherException msg\<close> is any other \<^verbatim>\<open>Exception\<close>, with \<^verbatim>\<open>str(e) = msg\<close>.
\<close>

datatype requests_exc =
  ProxyError | ConnectTimeout | ReadTimeout | SSLError | ConnectionError
  | OtherException string

definition isinstance_Timeout :: "requests_exc \<Rightarrow> bool" where
  "isinstance_Timeout e = (e = ConnectTimeout \<or> e = ReadTimeout)"

definition isinstance_ConnectionError :: "requests_exc \<Rightarrow> bool" where
  "isinstance_ConnectionError e =
     (e = ProxyError \<or> e = ConnectTimeout \<or> e = SSLError \<or> e = ConnectionError)"

text \<open>The fields of the JSON document of the geolocation service that the code reads.\<close>

record geo_data =
  geo_ip :: "string option"
  geo_country_name :: "string option"
  geo_country_code :: "string option"
  geo_city :: "string option"
  geo_region :: "string option"

text \<open>
  What the code reads of a response: \<open>json = None\<close> stands for a body on which
  \<^verbatim>\<open>response.json()\<close> (or the \<^verbatim>\<open>.get\<close> calls after it) raises; \<open>elapsed\<close> is the
  wall-clock time in seconds that the code measures around the call.
\<close>

record response =
  status_code :: int
  elapsed :: rat
  json :: "geo_data option"
  body_text :: string

datatype get_result = Returned response | Raised requests_exc

text \<open>
  \<open>Proxies scheme ip port\<close> is the dictionary
  \<^verbatim>\<open>{'http': f'{scheme}://{ip}:{port}', 'https': f'{scheme}://{ip}:{port}'}\<close>.
\<close>

datatype proxies = Proxies string nat int

record proxy_config =
  cfg_type :: string
  cfg_proxies :: proxies

record site =
  url :: string
  name :: string
  key :: string
  priority :: nat

record endpoint =
  ep_name :: string
  ep_url :: string
  display_name :: string
  check_text :: string

datatype ai_status =
  St_unknown | St_available | St_blocked | St_uncertain | St_timeout
  | St_connection_error | St_error | St_http int

record ai_info =
  available :: bool
  status :: ai_status
  ai_response_time :: "rat option"

text \<open>The environment of the HTTP stage: the answer to a GET of a URL through a proxy.\<close>

record http_env =
  requests_get :: "string \<Rightarrow> proxies \<Rightarrow> get_result"

text \<open>
  Python's \<^verbatim>\<open>round(x, 2)\<close>: to the nearest hundredth, a tie to the even neighbour.
\<close>

definition py_round2 :: "rat \<Rightarrow> rat" where
  "py_round2 x =
     (let y = x * 100; f = \<lfloor>y\<rfloor>; d = y - of_int f
      in of_int (if d < 1 / 2 then f else if 1 / 2 < d then f + 1
                 else if even f then f else f + 1) / 100)"

text \<open>\<^verbatim>\<open>str.lower()\<close> on the ASCII letters.\<close>

definition lower_char :: "char \<Rightarrow> char" where
  "lower_char c =
     (let n = of_char c :: nat in if 65 \<le> n \<and> n \<le> 90 then char_of (n + 32) else c)"

definition lower :: "string \<Rightarrow> string" where
  "lower s = map lower_char s"

subsection \<open>test_ai_model_availability\<close>

definition ai_availability_init :: "(string \<times> ai_info) list" where
  "ai_availability_init =
     [(''chatgpt'', \<lparr>available = False, status = St_unknown, ai_response_time = None\<rparr>),
      (''claude'', \<lparr>available = False, status = St_unknown, ai_response_time = None\<rparr>),
      (''gemini'', \<lparr>available = False, status = St_unknown, ai_response_time = None\<rparr>),
      (''copilot'', \<lparr>available = False, status = St_unknown, ai_response_time = None\<rparr>)]"

definition ai_endpoints :: "endpoint list" where
  "ai_endpoints =
     [\<lparr>ep_name = ''chatgpt'', ep_url = ''https://chat.openai.com'',
       display_name = ''ChatGPT'', check_text = ''openai''\<rparr>,
      \<lparr>ep_name = ''claude'', ep_url = ''https://claude.ai'',
       display_name = ''Claude'', check_text = ''claude''\<rparr>,
      \<lparr>ep_name = ''gemini'', ep_url = ''https://gemini.google.com'',
       display_name = ''Gemini'', check_text = ''google''\<rparr>,
      \<lparr>ep_name = ''copilot'', ep_url = ''https://copilot.microsoft.com'',
       display_name = ''Copilot'', check_text = ''microsoft''\<rparr>]"

definition blocked_keywords :: "string list" where
  "blocked_keywords =
     [''not available in your country'', ''not available in your region'',
      ''service is not available'', ''access denied'', ''region restricted'',
      ''geographic restriction'', ''geoblocked'', ''vpn detected'', ''proxy detected'']"

text \<open>The entry of one endpoint after its request: the body of the loop.\<close>

definition check_endpoint :: "get_result \<Rightarrow> endpoint \<Rightarrow> ai_info \<Rightarrow> ai_info" where
  "check_endpoint res ep entry =
     (case res of
        Returned r \<Rightarrow>
          if status_code r \<in> set [200, 301, 302] then
            (let content_lower = lower (body_text r);
                 is_blocked = list_ex (\<lambda>keyword. sublist keyword content_lower) blocked_keywords
             in if is_blocked then entry\<lparr>available := False, status := St_blocked\<rparr>
                else if sublist (check_text ep) content_lower \<or> status_code r = 200 then
                  entry\<lparr>available := True, status := St_available,
                        ai_response_time := Some (py_round2 (elapsed r * 1000))\<rparr>
                else entry\<lparr>status := St_uncertain\<rparr>)
          else if status_code r = 403 then entry\<lparr>available := False, status := St_blocked\<rparr>
          else entry\<lparr>status := St_http (status_code r)\<rparr>
      | Raised e \<Rightarrow>
          if isinstance_Timeout e then entry\<lparr>status := St_timeout\<rparr>
          else if isinstance_ConnectionError e then entry\<lparr>status := St_connection_error\<rparr>
          else entry\<lparr>status := St_error\<rparr>)"

definition ai_step ::
  "http_env \<Rightarrow> proxies \<Rightarrow> (string \<times> ai_info) list \<Rightarrow> endpoint \<Rightarrow> (string \<times> ai_info) list" where
  "ai_step env prx ai_availability ep =
     (case map_of ai_availability (ep_name ep) of
        None \<Rightarrow> ai_availability
      | Some entry \<Rightarrow>
          AList.update (ep_name ep)
            (check_endpoint (requests_get env (ep_url ep) prx) ep entry) ai_availability)"

definition test_ai_model_availability ::
  "http_env \<Rightarrow> proxies \<Rightarrow> (string \<times> ai_info) list" where
  "test_ai_model_availability env prx = foldl (ai_step env prx) ai_availability_init ai_endpoints"

subsection \<open>test_proxy_quality\<close>

record proxy_info =
  response_time :: "rat option"
  is_working :: bool
  http_code :: "int option"
  can_access_google :: bool
  accessible_sites :: "string list"
  quality_score :: int
  quality_level :: string
  error :: "string option"
  proxy_type :: string
  exit_ip :: "string option"
  exit_country :: "string option"
  exit_country_code :: "string option"
  exit_city :: "string option"
  exit_region :: "string option"
  ai_models :: "(string \<times> ai_info) list option"

definition proxy_info_init :: proxy_info where
  "proxy_info_init =
     \<lparr>response_time = None, is_working = False, http_code = None,
      can_access_google = False, accessible_sites = [], quality_score = 0,
      quality_level = ''unknown'', error = None, proxy_type = ''unknown'',
      exit_ip = None, exit_country = None, exit_country_code = None, exit_city = None,
      exit_region = None, ai_models = None\<rparr>"

definition proxy_configs :: "nat \<Rightarrow> int \<Rightarrow> proxy_config list" where
  "proxy_configs ip port =
     [\<lparr>cfg_type = ''http'', cfg_proxies = Proxies ''http'' ip port\<rparr>,
      \<lparr>cfg_type = ''socks5'', cfg_proxies = Proxies ''socks5'' ip port\<rparr>]"

definition test_sites :: "site list" where
  "test_sites =
     [\<lparr>url = ''https://ipapi.co/json/'', name = ''IP Check'', key = ''ip_check'', priority = 1\<rparr>,
      \<lparr>url = ''https://www.google.com/generate_204'', name = ''Google'',
       key = ''can_access_google'', priority = 2\<rparr>,
      \<lparr>url = ''https://www.youtube.com'', name = ''YouTube'',
       key = ''can_access_youtube'', priority = 3\<rparr>]"

text \<open>
  The local variables of the probing loop beside \<open>proxy_info\<close>. \<open>calls\<close> is the trace of
  the requests issued so far, each with the type of the configuration it went through
  and its URL: the effect of the loop on the network, kept to reason about the order of
  the attempts.
\<close>

record probe_state =
  info :: proxy_info
  best_time :: "rat option"
  successful_config :: "string option"
  working_proxies :: "proxies option"
  calls :: "(string \<times> string) list"

text \<open>The chain of \<^verbatim>\<open>except\<close> clauses of the probing loop, in the source's order.\<close>

definition except_text :: "requests_exc \<Rightarrow> string" where
  "except_text e =
     (if e = ProxyError then ''Proxy connection failed''
      else if isinstance_Timeout e then ''Request timeout''
      else if e = SSLError then ''SSL error''
      else if isinstance_ConnectionError e then ''Connection error''
      else (case e of OtherException msg \<Rightarrow> msg | _ \<Rightarrow> ''''))"

text \<open>
  The keys of the dictionary \<open>proxy_info\<close> among the sites' keys: only
  \<^verbatim>\<open>can_access_google\<close> is one, so \<^verbatim>\<open>proxy_info[site['key']] = True\<close> runs for it alone.
\<close>

definition mark_site :: "site \<Rightarrow> proxy_info \<Rightarrow> proxy_info" where
  "mark_site s p = (if key s = ''can_access_google'' then p\<lparr>can_access_google := True\<rparr> else p)"

definition record_geo :: "site \<Rightarrow> response \<Rightarrow> proxy_info \<Rightarrow> proxy_info" where
  "record_geo s r p =
     (if key s = ''ip_check'' \<and> status_code r = 200 then
        (case json r of
           None \<Rightarrow> p
         | Some geo \<Rightarrow>
             p\<lparr>exit_ip := geo_ip geo, exit_country := geo_country_name geo,
               exit_country_code := geo_country_code geo, exit_city := geo_city geo,
               exit_region := geo_region geo\<rparr>)
      else p)"

definition record_accessible :: "site \<Rightarrow> proxy_info \<Rightarrow> proxy_info" where
  "record_accessible s p =
     (if name s \<notin> set (accessible_sites p) \<and> name s \<noteq> ''IP Check''
      then p\<lparr>accessible_sites := accessible_sites p @ [name s]\<rparr> else p)"

text \<open>One iteration of the inner loop: one request and the bookkeeping after it.\<close>

definition probe_site :: "http_env \<Rightarrow> proxy_config \<Rightarrow> probe_state \<Rightarrow> site \<Rightarrow> probe_state" where
  "probe_site env config st0 s =
     (let st = st0\<lparr>calls := calls st0 @ [(cfg_type config, url s)]\<rparr>
      in case requests_get env (url s) (cfg_proxies config) of
           Raised e \<Rightarrow> st\<lparr>info := (info st)\<lparr>error := Some (except_text e)\<rparr>\<rparr>
         | Returned r \<Rightarrow>
             if status_code r \<in> set [200, 204, 301, 302, 403] then
               (let p1 = (info st)\<lparr>is_working := True, http_code := Some (status_code r),
                                   proxy_type := cfg_type config\<rparr>;
                    p2 = mark_site s (record_accessible s (record_geo s r p1));
                    st1 = st\<lparr>working_proxies := Some (cfg_proxies config),
                             successful_config :=
                               (case successful_config st of
                                  None \<Rightarrow> Some (cfg_type config) | Some c \<Rightarrow> Some c)\<rparr>
                in if best_time st1 = None \<or> elapsed r < the (best_time st1) then
                     st1\<lparr>info := p2\<lparr>response_time := Some (py_round2 (elapsed r * 1000))\<rparr>,
                         best_time := Some (elapsed r)\<rparr>
                   else st1\<lparr>info := p2\<rparr>)
             else st)"

text \<open>The outer loop over the configurations, with its \<^verbatim>\<open>break\<close>.\<close>

fun try_configs :: "http_env \<Rightarrow> proxy_config list \<Rightarrow> probe_state \<Rightarrow> probe_state" where
  "try_configs env [] st = st"
| "try_configs env (config # rest) st =
     (let st' = foldl (probe_site env config) st (sort_key priority test_sites)
      in if is_working (info st') then st' else try_configs env rest st')"

definition probe_init :: probe_state where
  "probe_init =
     \<lparr>info = proxy_info_init, best_time = None, successful_config = None,
      working_proxies = None, calls = []\<rparr>"

definition ai_stage :: "http_env \<Rightarrow> bool \<Rightarrow> probe_state \<Rightarrow> proxy_info" where
  "ai_stage env check_ai_models st =
     (case working_proxies st of
        Some prx \<Rightarrow>
          if is_working (info st) \<and> check_ai_models
          then (info st)\<lparr>ai_models := Some (test_ai_model_availability env prx)\<rparr>
          else info st
      | None \<Rightarrow> info st)"

text \<open>The number of entries of \<open>ai_models\<close> whose \<open>available\<close> is set.\<close>

definition available_models_count :: "(string \<times> ai_info) list \<Rightarrow> nat" where
  "available_models_count m = length (filter (\<lambda>(n, i). available i) m)"

text \<open>The last stage of \<^verbatim>\<open>test_proxy_quality\<close>: the score and the level (lines 301 to 355).\<close>

definition site_points :: "proxy_info \<Rightarrow> int" where
  "site_points p =
     (let accessible_count = length (accessible_sites p)
      in if accessible_count \<ge> 3 then 30
         else if accessible_count \<ge> 2 then 25
         else if accessible_count \<ge> 1 then 20
         else 0)"

definition time_points :: "proxy_info \<Rightarrow> int" where
  "time_points p =
     (case response_time p of
        None \<Rightarrow> 0
      | Some t \<Rightarrow>
          if t < 300 then 30
          else if t < 600 then 25
          else if t < 1000 then 20
          else if t < 2000 then 15
          else if t < 3000 then 10
          else if t < 5000 then 5
          else 0)"

definition ai_points :: "proxy_info \<Rightarrow> int" where
  "ai_points p =
     (case ai_models p of
        None \<Rightarrow> 0
      | Some m \<Rightarrow>
          if m = [] then 0
          else (let available_models_count = available_models_count m
                in if available_models_count \<ge> 4 then 10
                   else if available_models_count \<ge> 3 then 8
                   else if available_models_count \<ge> 2 then 6
                   else if available_models_count \<ge> 1 then 4
                   else 0))"

definition score_stage :: "proxy_info \<Rightarrow> proxy_info" where
  "score_stage p =
     (if is_working p then
        (let score = 30 + site_points p + time_points p + ai_points p
         in p\<lparr>quality_score := score,
              quality_level :=
                (if score \<ge> 85 then ''excellent''
                 else if score \<ge> 70 then ''good''
                 else if score \<ge> 55 then ''fair''
                 else if score \<ge> 40 then ''poor''
                 else ''bad'')\<rparr>)
      else p\<lparr>quality_level := ''unavailable''\<rparr>)"

definition probe_all :: "http_env \<Rightarrow> nat \<Rightarrow> int \<Rightarrow> probe_state" where
  "probe_all env ip port = try_configs env (proxy_configs ip port) probe_init"

definition test_proxy_quality :: "http_env \<Rightarrow> nat \<Rightarrow> int \<Rightarrow> bool \<Rightarrow> proxy_info" where
  "test_proxy_quality env ip port check_ai_models =
     score_stage (ai_stage env check_ai_models (probe_all env ip port))"

subsection \<open>Notions used to state the properties of the prober\<close>

text \<open>A reference-site request counts as a success on one of five status codes.\<close>

definition succeeds :: "http_env \<Rightarrow> proxies \<Rightarrow> site \<Rightarrow> bool" where
  "succeeds env prx s =
     (case requests_get env (url s) prx of
        Returned r \<Rightarrow> status_code r \<in> set [200, 204, 301, 302, 403]
      | Raised e \<Rightarrow> False)"

text \<open>A request fails when it raises or answers with another status code.\<close>

definition fails :: "get_result \<Rightarrow> bool" where
  "fails res =
     (case res of
        Returned r \<Rightarrow> status_code r \<notin> set [200, 204, 301, 302, 403]
      | Raised e \<Rightarrow> True)"

text \<open>The traces of a full round of the reference sites through each configuration.\<close>

definition http_calls :: "(string \<times> string) list" where
  "http_calls =
     [(''http'', ''https://ipapi.co/json/''), (''http'', ''https://www.google.com/generate_204''),
      (''http'', ''https://www.youtube.com'')]"

definition socks5_calls :: "(string \<times> string) list" where
  "socks5_calls =
     [(''socks5'', ''https://ipapi.co/json/''),
      (''socks5'', ''https://www.google.com/generate_204''),
      (''socks5'', ''https://www.youtube.com'')]"

text \<open>
  The error categories of the attempts of a trace that raised, in the order of the
  attempts: an entry \<open>(ty, u)\<close> of the trace is the request of \<open>u\<close> through the
  configuration of type \<open>ty\<close>.
\<close>

definition attempt_errors :: "http_env \<Rightarrow> nat \<Rightarrow> int \<Rightarrow> (string \<times> string) list \<Rightarrow> string list" where
  "attempt_errors env ip port cs =
     concat (map (\<lambda>(ty, u). case requests_get env u (Proxies ty ip port) of
                                Raised e \<Rightarrow> [except_text e] | Returned r \<Rightarrow> []) cs)"

text \<open>
  The scorer in the words of the specification: a base of 30, a bonus for the number of
  accessible sites, the first matching latency bucket, a bonus for the number of
  available named endpoints, and the band of a score.
\<close>

fun spec_site_bonus :: "nat \<Rightarrow> int" where
  "spec_site_bonus 0 = 0"
| "spec_site_bonus (Suc 0) = 20"
| "spec_site_bonus (Suc (Suc 0)) = 25"
| "spec_site_bonus (Suc (Suc (Suc n))) = 30"

definition spec_latency_bonus :: "rat \<Rightarrow> int" where
  "spec_latency_bonus ms =
     (case find (\<lambda>(bound, bonus). ms < bound)
             [(300, 30), (600, 25), (1000, 20), (2000, 15), (3000, 10), (5000, 5)] of
        Some (bound, bonus) \<Rightarrow> bonus
      | None \<Rightarrow> 0)"

fun spec_endpoint_bonus :: "nat \<Rightarrow> int" where
  "spec_endpoint_bonus 0 = 0"
| "spec_endpoint_bonus (Suc 0) = 4"
| "spec_endpoint_bonus (Suc (Suc 0)) = 6"
| "spec_endpoint_bonus (Suc (Suc (Suc 0))) = 8"
| "spec_endpoint_bonus (Suc (Suc (Suc (Suc n)))) = 10"

definition spec_band :: "int \<Rightarrow> string" where
  "spec_band score =
     (case find (\<lambda>(bound, band). bound \<le> score)
             [(85, ''excellent''), (70, ''good''), (55, ''fair''), (40, ''poor'')] of
        Some (bound, band) \<Rightarrow> band
      | None \<Rightarrow> ''bad'')"

text \<open>The number of available named endpoints of a report; none were checked: zero.\<close>

definition endpoint_count :: "proxy_info \<Rightarrow> nat" where
  "endpoint_count p = (case ai_models p of None \<Rightarrow> 0 | Some m \<Rightarrow> available_models_count m)"

subsection \<open>A concrete candidate\<close>

text \<open>
  The candidate 10.0.0.2:7890 of the specification's scenario: as an HTTP proxy it
  reaches the geolocation service (200 after 250 ms) and the beacon (204 after 400 ms);
  every other request through it times out, so no named endpoint is available.
\<close>

definition demo_geo :: geo_data where
  "demo_geo =
     \<lparr>geo_ip = Some ''203.0.113.7'', geo_country_name = Some ''Japan'',
      geo_country_code = Some ''JP'', geo_city = Some ''Tokyo'', geo_region = Some ''Tokyo''\<rparr>"

definition demo_get :: "string \<Rightarrow> proxies \<Rightarrow> get_result" where
  "demo_get u prx =
     (if prx = Proxies ''http'' 167772162 7890 \<and> u = ''https://ipapi.co/json/'' then
        Returned \<lparr>status_code = 200, elapsed = 1 / 4, json = Some demo_geo, body_text = []\<rparr>
      else if prx = Proxies ''http'' 167772162 7890 \<and> u = ''https://www.google.com/generate_204'' then
        Returned \<lparr>status_code = 204, elapsed = 2 / 5, json = None, body_text = []\<rparr>
      else Raised ReadTimeout)"

definition demo_env :: http_env where
  "demo_env = \<lparr>requests_get = demo_get\<rparr>"

text \<open>
  The report of that candidate when the scoring stage starts, without the endpoint
  table: working, the beacon as the one accessible site, a best latency of 250 ms.
\<close>

definition demo_report :: proxy_info where
  "demo_report =
     proxy_info_init\<lparr>response_time := Some 250, is_working := True, http_code := Some 204,
       can_access_google := True, accessible_sites := [''Google''],
       error := Some ''Request timeout'', proxy_type := ''http''\<rparr>"

section \<open>The scan engine and the task registry\<close>

subsection \<open>Networks of the ipaddress module\<close>

text \<open>
  \<^verbatim>\<open>ipaddress\<close> is Python's standard library, not code of this repository. What the
  program uses of a network object is modelled as the library documents it:
  \<^verbatim>\<open>num_addresses\<close> counts every address of the network, and \<^verbatim>\<open>hosts()\<close> yields the
  addresses without the network address and, for IPv4, without the broadcast address;
  a network with one host bit yields both its addresses, one with none its only address.
\<close>

datatype ip_version = IPv4 | IPv6

record ip_network =
  version :: ip_version
  network_address :: nat
  prefixlen :: nat

definition max_prefixlen :: "ip_version \<Rightarrow> nat" where
  "max_prefixlen v = (case v of IPv4 \<Rightarrow> 32 | IPv6 \<Rightarrow> 128)"

definition host_bits :: "ip_network \<Rightarrow> nat" where
  "host_bits n = max_prefixlen (version n) - prefixlen n"

definition num_addresses :: "ip_network \<Rightarrow> nat" where
  "num_addresses n = 2 ^ host_bits n"

definition hosts :: "ip_network \<Rightarrow> nat list" where
  "hosts n =
     (let first = network_address n
      in if host_bits n = 0 then [first]
         else if host_bits n = 1 then [first, first + 1]
         else (case version n of
                 IPv4 \<Rightarrow> map (\<lambda>i. first + i) [1 ..< num_addresses n - 1]
               | IPv6 \<Rightarrow> map (\<lambda>i. first + i) [1 ..< num_addresses n]))"

text \<open>The networks \<^verbatim>\<open>ip_network(s, strict=False)\<close> can return.\<close>

definition valid_network :: "ip_network \<Rightarrow> bool" where
  "valid_network n =
     (prefixlen n \<le> max_prefixlen (version n)
      \<and> network_address n < 2 ^ max_prefixlen (version n)
      \<and> network_address n mod num_addresses n = 0)"

subsection \<open>Exceptions, the environment of a scan\<close>

datatype py_exc = ValueError string | TypeError string | OSError string

definition str_exc :: "py_exc \<Rightarrow> string" where
  "str_exc e = (case e of ValueError m \<Rightarrow> m | TypeError m \<Rightarrow> m | OSError m \<Rightarrow> m)"

text \<open>
  The socket calls of \<^verbatim>\<open>scan_port\<close> either give the value of \<^verbatim>\<open>connect_ex\<close> (0 when
  the connection is made, an error number otherwise, a timeout included) or raise.
\<close>

datatype sock_result = Connect_ex int | SockRaised py_exc

text \<open>
  \<open>ip_network s\<close> is \<^verbatim>\<open>ipaddress.ip_network(s, strict=False)\<close>, \<open>Inl\<close> the message of its
  \<^verbatim>\<open>ValueError\<close>; \<open>int_of_str s\<close> is \<^verbatim>\<open>int(s)\<close> on a string, \<open>None\<close> when it raises
  \<^verbatim>\<open>ValueError\<close>. \<open>found_at ip\<close> is the clock's text when the connection to \<open>ip\<close> was made,
  \<open>started_at\<close> and \<open>ended_at\<close> the clock's text when the thread starts and ends.
\<close>

record scan_env =
  http :: http_env
  ip_network :: "string \<Rightarrow> string + ip_network"
  int_of_str :: "string \<Rightarrow> int option"
  connect_ex :: "nat \<Rightarrow> int \<Rightarrow> sock_result"
  found_at :: "nat \<Rightarrow> string"
  started_at :: string
  ended_at :: string

subsection \<open>scan_port\<close>

text \<open>
  The dictionary \<open>base_result\<close>. With quality checking the code copies fields of the
  report beside it (\<^verbatim>\<open>base_result.update\<close>); the copies are the fields of
  \<open>proxy_quality\<close> and are read from there.
\<close>

record probe_result =
  ip :: nat
  port :: int
  status :: string
  timestamp :: string
  proxy_quality :: "proxy_info option"

text \<open>
  The body of the \<^verbatim>\<open>try\<close>: \<open>Inl\<close> an exception raised in it, \<open>Inr (Some r)\<close> its
  \<^verbatim>\<open>return base_result\<close>, \<open>Inr None\<close> when it ends without returning.
\<close>

definition scan_port_try ::
  "scan_env \<Rightarrow> nat \<Rightarrow> int \<Rightarrow> bool \<Rightarrow> py_exc + probe_result option" where
  "scan_port_try env ip0 port0 check_quality =
     (case connect_ex env ip0 port0 of
        SockRaised e \<Rightarrow> Inl e
      | Connect_ex result \<Rightarrow>
          if result = 0 then
            (let base_result = \<lparr>ip = ip0, port = port0, status = ''open'',
                                timestamp = found_at env ip0, proxy_quality = None\<rparr>
             in if check_quality
                then Inr (Some (base_result\<lparr>proxy_quality :=
                                  Some (test_proxy_quality (http env) ip0 port0 True)\<rparr>))
                else Inr (Some base_result))
          else Inr None)"

text \<open>
  \<^verbatim>\<open>scan_port\<close>: \<open>Inl\<close> would be an exception that leaves the function, \<open>Inr None\<close> is
  \<^verbatim>\<open>return None\<close>.
\<close>

definition scan_port ::
  "scan_env \<Rightarrow> nat \<Rightarrow> int \<Rightarrow> bool \<Rightarrow> py_exc + probe_result option" where
  "scan_port env ip0 port0 check_quality =
     (case scan_port_try env ip0 port0 check_quality of
        Inl e \<Rightarrow> Inr None
      | Inr (Some base_result) \<Rightarrow> Inr (Some base_result)
      | Inr None \<Rightarrow> Inr None)"

subsection \<open>ScanTask and scan_network_thread\<close>

record scan_task =
  task_id :: string
  network :: string
  port :: int
  threads :: int
  check_proxy_quality :: bool
  is_scanning :: bool
  progress :: int
  total :: int
  scanned :: int
  results :: "probe_result list"
  start_time :: "string option"
  end_time :: "string option"
  error :: "string option"
  created_at :: int

text \<open>The constructor; \<open>created\<close> is the clock in seconds when it runs.\<close>

definition ScanTask :: "string \<Rightarrow> string \<Rightarrow> int \<Rightarrow> int \<Rightarrow> bool \<Rightarrow> int \<Rightarrow> scan_task" where
  "ScanTask tid network0 port0 threads0 check0 created =
     \<lparr>task_id = tid, network = network0, port = port0, threads = threads0,
      check_proxy_quality = check0, is_scanning = False, progress = 0, total = 0,
      scanned = 0, results = [], start_time = None, end_time = None, error = None,
      created_at = created\<rparr>"

text \<open>
  One turn of the loop over the futures, for a future that returned \<open>result\<close>.
  \<^verbatim>\<open>int((scanned / total_hosts) * 100)\<close> is computed in floating point; \<open>total_hosts\<close>
  is a power of two, so the quotient and the product are exact and the value is the
  integer quotient below.
\<close>

definition collect_one :: "int \<Rightarrow> scan_task \<Rightarrow> probe_result option \<Rightarrow> scan_task" where
  "collect_one total_hosts task result =
     (let t1 = task\<lparr>scanned := scanned task + 1\<rparr>;
          t2 = t1\<lparr>progress := (scanned t1 * 100) div total_hosts\<rparr>
      in case result of
           Some r \<Rightarrow> t2\<lparr>results := results t2 @ [r]\<rparr>
         | None \<Rightarrow> t2)"

text \<open>
  The loop over the futures, in the order of submission: \<^verbatim>\<open>future.result()\<close> raises
  what the unit raised, which ends the loop with the task as it is.
\<close>

fun collect ::
  "int \<Rightarrow> scan_task \<Rightarrow> (py_exc + probe_result option) list \<Rightarrow> scan_task \<times> py_exc option" where
  "collect total_hosts task [] = (task, None)"
| "collect total_hosts task (Inl e # futures) = (task, Some e)"
| "collect total_hosts task (Inr result # futures) =
     collect total_hosts (collect_one total_hosts task result) futures"

text \<open>
  The \<^verbatim>\<open>try\<close> block of the thread. \<^verbatim>\<open>ThreadPoolExecutor(max_workers=n)\<close> raises
  \<^verbatim>\<open>ValueError\<close> for \<open>n \<le> 0\<close>.
\<close>

definition try_block :: "scan_env \<Rightarrow> scan_task \<Rightarrow> scan_task \<times> py_exc option" where
  "try_block env task =
     (case ip_network env (network task) of
        Inl msg \<Rightarrow> (task, Some (ValueError msg))
      | Inr network_obj \<Rightarrow>
          (let total_hosts = int (num_addresses network_obj);
               t1 = task\<lparr>total := total_hosts\<rparr>
           in if threads t1 \<le> 0
              then (t1, Some (ValueError ''max_workers must be greater than 0''))
              else collect total_hosts t1
                     (map (\<lambda>ip0. scan_port env ip0 (scan_task.port t1) (check_proxy_quality t1))
                        (hosts network_obj))))"

definition except_block :: "scan_task \<times> py_exc option \<Rightarrow> scan_task" where
  "except_block r =
     (case r of
        (task, None) \<Rightarrow> task
      | (task, Some e) \<Rightarrow> task\<lparr>error := Some (str_exc e)\<rparr>)"

text \<open>The \<^verbatim>\<open>finally\<close> block: its two assignments, then the sort.\<close>

definition finally_flags :: "scan_env \<Rightarrow> scan_task \<Rightarrow> scan_task" where
  "finally_flags env task = task\<lparr>is_scanning := False, end_time := Some (ended_at env)\<rparr>"

text \<open>\<^verbatim>\<open>x.get('quality_score', 0)\<close>.\<close>

definition get_quality_score :: "probe_result \<Rightarrow> int" where
  "get_quality_score x = (case proxy_quality x of Some q \<Rightarrow> quality_score q | None \<Rightarrow> 0)"

text \<open>
  \<^verbatim>\<open>list.sort(key=..., reverse=True)\<close> is stable: it is the stable sort by the negated
  key.
\<close>

definition finally_sort :: "scan_task \<Rightarrow> scan_task" where
  "finally_sort task =
     (if check_proxy_quality task \<and> results task \<noteq> []
      then task\<lparr>results := sort_key (\<lambda>x. - get_quality_score x) (results task)\<rparr>
      else task)"

definition thread_start :: "scan_env \<Rightarrow> scan_task \<Rightarrow> scan_task" where
  "thread_start env task = task\<lparr>is_scanning := True, start_time := Some (started_at env)\<rparr>"

text \<open>The task when the \<^verbatim>\<open>try\<close> and \<^verbatim>\<open>except\<close> blocks are done.\<close>

definition thread_body :: "scan_env \<Rightarrow> scan_task \<Rightarrow> scan_task" where
  "thread_body env task = except_block (try_block env (thread_start env task))"

definition run_task :: "scan_env \<Rightarrow> scan_task \<Rightarrow> scan_task" where
  "run_task env task = finally_sort (finally_flags env (thread_body env task))"

text \<open>The registry \<open>scan_tasks\<close> maps a task id to its task.\<close>

type_synonym registry = "string \<rightharpoonup> scan_task"

definition scan_network_thread :: "scan_env \<Rightarrow> registry \<Rightarrow> string \<Rightarrow> registry" where
  "scan_network_thread env scan_tasks tid =
     (case scan_tasks tid of
        None \<Rightarrow> scan_tasks
      | Some task \<Rightarrow> scan_tasks(tid \<mapsto> run_task env task))"

subsection \<open>The HTTP handlers of the registry\<close>

text \<open>
  The values of the request's JSON body that \<^verbatim>\<open>int()\<close> is applied to: a number, a
  string, or \<^verbatim>\<open>null\<close>. A key that is absent takes the handler's default.
\<close>

datatype jval = JInt int | JStr string | JNull

record scan_request =
  req_network :: "string option"
  req_port :: "jval option"
  req_threads :: "jval option"
  req_check_proxy_quality :: "bool option"

definition py_int :: "scan_env \<Rightarrow> jval \<Rightarrow> py_exc + int" where
  "py_int env v =
     (case v of
        JInt n \<Rightarrow> Inr n
      | JStr s \<Rightarrow>
          (case int_of_str env s of
             Some n \<Rightarrow> Inr n
           | None \<Rightarrow> Inl (ValueError ''invalid literal for int() with base 10''))
      | JNull \<Rightarrow> Inl (TypeError ''int() argument must be a string or a real number''))"

text \<open>
  The messages of the responses (Chinese text in the source), by what they say.
\<close>

datatype message =
  Port_must_be_1_to_65535 | Parameter_error string | Create_failed string
  | Task_created bool | Task_missing_or_expired | Task_missing | Task_is_scanning
  | Task_deleted | No_message

record api_response =
  http_status :: nat
  success :: bool
  message :: message
  data :: "scan_task option"

definition error_response :: "nat \<Rightarrow> message \<Rightarrow> api_response" where
  "error_response code msg = \<lparr>http_status = code, success = False, message = msg, data = None\<rparr>"

text \<open>The two \<^verbatim>\<open>except\<close> clauses of \<^verbatim>\<open>start_scan\<close>.\<close>

definition start_scan_except :: "py_exc \<Rightarrow> api_response" where
  "start_scan_except e =
     (case e of
        ValueError m \<Rightarrow> error_response 400 (Parameter_error m)
      | _ \<Rightarrow> error_response 500 (Create_failed (str_exc e)))"

text \<open>
  \<^verbatim>\<open>start_scan\<close>: \<open>new_id\<close> is the UUID drawn for the task, \<open>now\<close> the clock in seconds.
  The thread it starts is \<open>scan_network_thread\<close>, which runs after the handler.
\<close>

definition start_scan ::
  "scan_env \<Rightarrow> registry \<Rightarrow> scan_request \<Rightarrow> string \<Rightarrow> int \<Rightarrow> api_response \<times> registry" where
  "start_scan env scan_tasks req new_id now =
     (let network0 = (case req_network req of None \<Rightarrow> ''10.16.65.0/24'' | Some s \<Rightarrow> s)
      in case py_int env (case req_port req of None \<Rightarrow> JInt 7890 | Some v \<Rightarrow> v) of
           Inl e \<Rightarrow> (start_scan_except e, scan_tasks)
         | Inr port0 \<Rightarrow>
             (case py_int env (case req_threads req of None \<Rightarrow> JInt 50 | Some v \<Rightarrow> v) of
                Inl e \<Rightarrow> (start_scan_except e, scan_tasks)
              | Inr threads0 \<Rightarrow>
                  (let check0 = (case req_check_proxy_quality req of None \<Rightarrow> False | Some b \<Rightarrow> b)
                   in case ip_network env network0 of
                        Inl msg \<Rightarrow> (start_scan_except (ValueError msg), scan_tasks)
                      | Inr network_obj \<Rightarrow>
                          if \<not> (1 \<le> port0 \<and> port0 \<le> 65535)
                          then (error_response 400 Port_must_be_1_to_65535, scan_tasks)
                          else (let task = ScanTask new_id network0 port0 threads0 check0 now
                                in (\<lparr>http_status = 200, success = True,
                                     message = Task_created check0, data = Some task\<rparr>,
                                    scan_tasks(new_id \<mapsto> task))))))"

definition get_task_status :: "registry \<Rightarrow> string \<Rightarrow> api_response" where
  "get_task_status scan_tasks tid =
     (case scan_tasks tid of
        None \<Rightarrow> error_response 404 Task_missing_or_expired
      | Some task \<Rightarrow> \<lparr>http_status = 200, success = True, message = No_message, data = Some task\<rparr>)"

definition delete_task :: "registry \<Rightarrow> string \<Rightarrow> api_response \<times> registry" where
  "delete_task scan_tasks tid =
     (case scan_tasks tid of
        None \<Rightarrow> (error_response 404 Task_missing, scan_tasks)
      | Some task \<Rightarrow>
          if is_scanning task then (error_response 400 Task_is_scanning, scan_tasks)
          else (\<lparr>http_status = 200, success = True, message = Task_deleted, data = None\<rparr>,
                scan_tasks(tid := None)))"

text \<open>One round of \<^verbatim>\<open>cleanup_old_tasks\<close> at the time \<open>now\<close>, in seconds.\<close>

definition cleanup_old_tasks :: "int \<Rightarrow> registry \<Rightarrow> registry" where
  "cleanup_old_tasks now scan_tasks =
     (\<lambda>tid. case scan_tasks tid of
               None \<Rightarrow> None
             | Some task \<Rightarrow>
                 if \<not> is_scanning task \<and> now - created_at task > 3600 then None else Some task)"

text \<open>
  What happens to the registry over the life of the process: requests that create and
  delete tasks, threads that run a task, rounds of the cleanup.
\<close>

datatype event =
  Create scan_request string int | Run_thread string | Delete string | Cleanup int

fun apply_event :: "scan_env \<Rightarrow> registry \<Rightarrow> event \<Rightarrow> registry" where
  "apply_event env scan_tasks (Create req new_id now) = snd (start_scan env scan_tasks req new_id now)"
| "apply_event env scan_tasks (Run_thread tid) = scan_network_thread env scan_tasks tid"
| "apply_event env scan_tasks (Delete tid) = snd (delete_task scan_tasks tid)"
| "apply_event env scan_tasks (Cleanup now) = cleanup_old_tasks now scan_tasks"

definition registry_after :: "scan_env \<Rightarrow> event list \<Rightarrow> registry" where
  "registry_after env events = foldl (apply_event env) Map.empty events"

subsection \<open>A concrete network\<close>

text \<open>
  The network 10.0.0.0/30 of the specification's scenario, with no host accepting a
  connection (\<^verbatim>\<open>connect_ex\<close> gives 111, connection refused). The environment answers
  \<open>ip_network\<close> as the library does on the two strings the examples below pass to it:
  \<^verbatim>\<open>10.0.0.0/30\<close> parses, \<^verbatim>\<open>10.0.0.0/33\<close> does not.
\<close>

definition net_10_0_0_0_30 :: ip_network where
  "net_10_0_0_0_30 = \<lparr>version = IPv4, network_address = 167772160, prefixlen = 30\<rparr>"

definition quiet_env :: scan_env where
  "quiet_env =
     \<lparr>http = demo_env,
      ip_network = (\<lambda>s. if s = ''10.0.0.0/30'' then Inr net_10_0_0_0_30
                         else Inl ''does not appear to be an IPv4 or IPv6 network''),
      int_of_str = (\<lambda>s. None),
      connect_ex = (\<lambda>ip0 port0. Connect_ex 111),
      found_at = (\<lambda>ip0. ''2024-01-01 00:00:01''),
      started_at = ''2024-01-01 00:00:00'',
      ended_at = ''2024-01-01 00:00:02''\<rparr>"

definition quiet_task :: scan_task where
  "quiet_task = ScanTask ''t1'' ''10.0.0.0/30'' 22 2 False 0"

text \<open>The same network with the host 10.0.0.1 accepting connections.\<close>

definition open_env :: scan_env where
  "open_env =
     quiet_env\<lparr>connect_ex := (\<lambda>ip0 port0. if ip0 = 167772161 then Connect_ex 0 else Connect_ex 111)\<rparr>"

text \<open>
  The same network with both hosts accepting connections, and a task on it that checks
  the quality of what it finds: 10.0.0.1 answers no request made through it, 10.0.0.2
  is the candidate above.
\<close>

definition both_open_env :: scan_env where
  "both_open_env = quiet_env\<lparr>connect_ex := (\<lambda>ip0 port0. Connect_ex 0)\<rparr>"

definition quality_task :: scan_task where
  "quality_task = ScanTask ''t2'' ''10.0.0.0/30'' 7890 2 True 0"

text \<open>A registry holding one task whose thread has started.\<close>

definition running_registry :: registry where
  "running_registry = [''t1'' \<mapsto> thread_start quiet_env quiet_task]"

text \<open>A request for that network with a worker concurrency of zero.\<close>

definition zero_threads_request :: scan_request where
  "zero_threads_request =
     \<lparr>req_network = Some ''10.0.0.0/30'', req_port = Some (JInt 22),
      req_threads = Some (JInt 0), req_check_proxy_quality = Some False\<rparr>"

text \<open>What a request asks for: its network, and its port as \<^verbatim>\<open>int()\<close> reads it.\<close>

definition requested_network :: "scan_request \<Rightarrow> string" where
  "requested_network req = (case req_network req of None \<Rightarrow> ''10.16.65.0/24'' | Some s \<Rightarrow> s)"

definition requested_port :: "scan_env \<Rightarrow> scan_request \<Rightarrow> py_exc + int" where
  "requested_port env req = py_int env (case req_port req of None \<Rightarrow> JInt 7890 | Some v \<Rightarrow> v)"

text \<open>Requests with a network that does not parse, and with a port out of range.\<close>

definition bad_network_request :: scan_request where
  "bad_network_request = zero_threads_request\<lparr>req_network := Some ''10.0.0.0/33''\<rparr>"

definition bad_port_request :: scan_request where
  "bad_port_request = zero_threads_request\<lparr>req_port := Some (JInt 70000)\<rparr>"

text \<open>
  A stored task is well-formed in its target when its network parses and its port is
  in the range 1 to 65535; two tasks have the same target when they agree on both.
\<close>

definition task_ok :: "scan_env \<Rightarrow> scan_task \<Rightarrow> bool" where
  "task_ok env t =
     ((\<exists>n. ip_network env (network t) = Inr n)
      \<and> 1 \<le> scan_task.port t \<and> scan_task.port t \<le> 65535)"

definition same_target :: "scan_task \<Rightarrow> scan_task \<Rightarrow> bool" where
  "same_target a b = (network a = network b \<and> scan_task.port a = scan_task.port b)"

text \<open>What the thread finds at an address of that network when it checks the quality.\<close>

definition found :: "nat \<Rightarrow> probe_result" where
  "found ip0 = \<lparr>ip = ip0, port = 7890, status = ''open'', timestamp = ''2024-01-01 00:00:01'',
      proxy_quality = Some (test_proxy_quality demo_env ip0 7890 True)\<rparr>"

text \<open>The value one probe unit returns to the loop over the futures.\<close>

definition unit_result :: "scan_env \<Rightarrow> int \<Rightarrow> bool \<Rightarrow> nat \<Rightarrow> probe_result option" where
  "unit_result env p c ip0 =
     (case scan_port_try env ip0 p c of Inr (Some r) \<Rightarrow> Some r | _ \<Rightarrow> None)"

text \<open>
  The best time and the reported latency are set together, and a working proxy has both.
\<close>

definition timed :: "probe_state \<Rightarrow> bool" where
  "timed st =
     ((best_time st = None) = (response_time (info st) = None)
      \<and> (\<not> is_working (info st) \<or> best_time st \<noteq> None))"

section \<open>Properties\<close>

subsection \<open>The quality scorer\<close>

lemma site_points_spec: "site_points p = spec_site_bonus (length (accessible_sites p))"
proof -
  have "(if n \<ge> 3 then 30 else if n \<ge> 2 then 25 else if n \<ge> 1 then 20 else 0) = spec_site_bonus n" for n :: nat
    by (induction n rule: spec_site_bonus.induct) simp_all
  then show ?thesis by (simp add: site_points_def Let_def)
qed

lemma time_points_spec: "response_time p = Some t \<Longrightarrow> time_points p = spec_latency_bonus t"
  by (simp add: time_points_def spec_latency_bonus_def)

lemma endpoint_bonus_chain:
  "(if n \<ge> 4 then 10 else if n \<ge> 3 then 8 else if n \<ge> 2 then 6 else if n \<ge> 1 then 4 else 0)
     = spec_endpoint_bonus n"
  by (induction n rule: spec_endpoint_bonus.induct) simp_all

lemma available_models_count_Nil: "available_models_count [] = 0"
  by (simp add: available_models_count_def)

lemma ai_points_spec: "ai_points p = spec_endpoint_bonus (endpoint_count p)"
  by (simp add: ai_points_def endpoint_count_def Let_def endpoint_bonus_chain
      available_models_count_Nil split: option.split)

lemma site_bonus_range: "0 \<le> spec_site_bonus n \<and> spec_site_bonus n \<le> 30"
  by (induction n rule: spec_site_bonus.induct) simp_all

lemma endpoint_bonus_range: "0 \<le> spec_endpoint_bonus n \<and> spec_endpoint_bonus n \<le> 10"
  by (induction n rule: spec_endpoint_bonus.induct) simp_all

lemma latency_bonus_range: "0 \<le> spec_latency_bonus t \<and> spec_latency_bonus t \<le> 30"
  by (simp add: spec_latency_bonus_def)

lemma level_spec:
  "(if score \<ge> 85 then ''excellent'' else if score \<ge> 70 then ''good''
    else if score \<ge> 55 then ''fair'' else if score \<ge> 40 then ''poor'' else ''bad'')
   = spec_band score"
  by (simp add: spec_band_def)

text \<open>
  Claim C4. The score of a working report is a function of the number of accessible
  sites, the best latency and the number of available named endpoints: 30, plus the
  site bonus, plus the first matching latency bucket, plus the endpoint bonus; it lies
  between 30 and 100; the level is the band of the score by inclusive lower bounds; a
  report that is not working gets the level \<open>unavailable\<close>.
\<close>

theorem quality_scorer_formula:
  "(is_working p \<and> response_time p = Some t \<longrightarrow>
      quality_score (score_stage p) =
        30 + spec_site_bonus (length (accessible_sites p)) + spec_latency_bonus t
           + spec_endpoint_bonus (endpoint_count p)
      \<and> 30 \<le> quality_score (score_stage p) \<and> quality_score (score_stage p) \<le> 100
      \<and> quality_level (score_stage p) = spec_band (quality_score (score_stage p)))
   \<and> (\<not> is_working p \<longrightarrow> quality_level (score_stage p) = ''unavailable'')"
proof -
  have unavailable: "quality_level (score_stage p) = ''unavailable''" if "\<not> is_working p"
    using that by (simp add: score_stage_def)
  have working: "quality_score (score_stage p) =
        30 + spec_site_bonus (length (accessible_sites p)) + spec_latency_bonus t
           + spec_endpoint_bonus (endpoint_count p)
      \<and> 30 \<le> quality_score (score_stage p) \<and> quality_score (score_stage p) \<le> 100
      \<and> quality_level (score_stage p) = spec_band (quality_score (score_stage p))"
    if w: "is_working p" and t: "response_time p = Some t"
  proof -
    have s: "quality_score (score_stage p) =
        30 + spec_site_bonus (length (accessible_sites p)) + spec_latency_bonus t
           + spec_endpoint_bonus (endpoint_count p)"
      using w by (simp add: score_stage_def Let_def site_points_spec time_points_spec[OF t] ai_points_spec)
    have l: "quality_level (score_stage p) = spec_band (quality_score (score_stage p))"
      using w by (simp add: score_stage_def Let_def level_spec)
    from s l site_bonus_range[of "length (accessible_sites p)"] latency_bonus_range[of t]
      endpoint_bonus_range[of "endpoint_count p"]
    show ?thesis by linarith
  qed
  from unavailable working show ?thesis by blast
qed

theorem quality_scorer_formula_witness:
  "is_working demo_report \<and> response_time demo_report = Some 250
   \<and> quality_score (score_stage demo_report) = 80
   \<and> quality_level (score_stage demo_report) = ''good''
   \<and> \<not> is_working proxy_info_init
   \<and> quality_level (score_stage proxy_info_init) = ''unavailable''"
  using quality_scorer_formula [of demo_report 250] quality_scorer_formula [of proxy_info_init]
  by (simp add: demo_report_def proxy_info_init_def spec_latency_bonus_def spec_band_def
      endpoint_count_def)

subsection \<open>The port probe\<close>

lemma scan_port_returns: "\<exists>r. scan_port env ip0 port0 cq = Inr r"
  by (simp add: scan_port_def split: sum.split option.split)

lemma scan_port_open:
  assumes "connect_ex env ip0 port0 = Connect_ex 0"
  shows "scan_port env ip0 port0 cq =
           Inr (Some \<lparr>ip = ip0, port = port0, status = ''open'', timestamp = found_at env ip0,
                      proxy_quality = (if cq then Some (test_proxy_quality (http env) ip0 port0 True)
                                       else None)\<rparr>)"
  using assms by (simp add: scan_port_def scan_port_try_def)

lemma scan_port_closed:
  assumes "connect_ex env ip0 port0 \<noteq> Connect_ex 0"
  shows "scan_port env ip0 port0 cq = Inr None"
  using assms by (simp add: scan_port_def scan_port_try_def split: sock_result.split)

text \<open>
  Claim C7. For every address and port \<^verbatim>\<open>scan_port\<close> returns and never raises: when the
  connection is made it returns an open result with the discovery timestamp; on every
  other outcome of the socket calls (an error number, a timeout, an exception) it
  returns \<^verbatim>\<open>None\<close>, the same value for all of them, after the one attempt.
\<close>

theorem scan_port_total:
  "(\<exists>r. scan_port env ip0 port0 cq = Inr r)
   \<and> (connect_ex env ip0 port0 = Connect_ex 0 \<longrightarrow>
        scan_port env ip0 port0 cq =
          Inr (Some \<lparr>ip = ip0, port = port0, status = ''open'', timestamp = found_at env ip0,
                     proxy_quality = (if cq then Some (test_proxy_quality (http env) ip0 port0 True)
                                      else None)\<rparr>))
   \<and> (connect_ex env ip0 port0 \<noteq> Connect_ex 0 \<longrightarrow> scan_port env ip0 port0 cq = Inr None)"
  using scan_port_returns[of env ip0 port0 cq] scan_port_open[of env ip0 port0 cq]
    scan_port_closed[of env ip0 port0 cq]
  by simp

theorem scan_port_total_witness:
  "connect_ex open_env 167772161 22 = Connect_ex 0
   \<and> scan_port open_env 167772161 22 False =
       Inr (Some \<lparr>ip = 167772161, port = 22, status = ''open'',
                  timestamp = ''2024-01-01 00:00:01'', proxy_quality = None\<rparr>)
   \<and> connect_ex open_env 167772162 22 \<noteq> Connect_ex 0
   \<and> scan_port open_env 167772162 22 False = Inr None"
  using scan_port_total [of open_env 167772161 22 False]
    scan_port_total [of open_env 167772162 22 False]
  by (simp add: open_env_def quiet_env_def)

subsection \<open>Deleting a task\<close>

lemma delete_running:
  "scan_tasks tid = Some task \<Longrightarrow> is_scanning task \<Longrightarrow>
     delete_task scan_tasks tid = (error_response 400 Task_is_scanning, scan_tasks)"
  by (simp add: delete_task_def)

lemma delete_finished:
  "scan_tasks tid = Some task \<Longrightarrow> \<not> is_scanning task \<Longrightarrow>
     delete_task scan_tasks tid =
       (\<lparr>http_status = 200, success = True, message = Task_deleted, data = None\<rparr>,
        scan_tasks(tid := None))"
  by (simp add: delete_task_def)

lemma get_after_delete:
  "get_task_status (scan_tasks(tid := None)) tid = error_response 404 Task_missing_or_expired"
  by (simp add: get_task_status_def)

lemma run_task_not_scanning: "\<not> is_scanning (run_task env task)"
  by (simp add: run_task_def finally_sort_def finally_flags_def)

lemma run_task_end_time: "end_time (run_task env task) = Some (ended_at env)"
  by (simp add: run_task_def finally_sort_def finally_flags_def)

text \<open>
  Claim C8. Deleting a task that is scanning fails (status 400, "the task is scanning
  and cannot be deleted": the Conflict of the specification) and leaves the registry
  as it was; once the thread has run to its end the task is no longer scanning and has
  an end time, deleting it succeeds, and getting it afterwards gives 404.
\<close>

theorem delete_running_conflict:
  "(scan_tasks tid = Some task \<and> is_scanning task \<longrightarrow>
      delete_task scan_tasks tid = (error_response 400 Task_is_scanning, scan_tasks)
      \<and> snd (delete_task scan_tasks tid) tid = Some task
      \<and> \<not> is_scanning (run_task env task)
      \<and> end_time (run_task env task) \<noteq> None
      \<and> success (fst (delete_task (scan_network_thread env scan_tasks tid) tid))
      \<and> http_status (fst (delete_task (scan_network_thread env scan_tasks tid) tid)) = 200
      \<and> get_task_status (snd (delete_task (scan_network_thread env scan_tasks tid) tid)) tid
          = error_response 404 Task_missing_or_expired)"
proof (intro impI, elim conjE)
  assume st: "scan_tasks tid = Some task" and run: "is_scanning task"
  have thr: "scan_network_thread env scan_tasks tid = scan_tasks(tid \<mapsto> run_task env task)"
    using st by (simp add: scan_network_thread_def)
  have del: "delete_task (scan_network_thread env scan_tasks tid) tid =
       (\<lparr>http_status = 200, success = True, message = Task_deleted, data = None\<rparr>,
        (scan_tasks(tid \<mapsto> run_task env task))(tid := None))"
    unfolding thr by (rule delete_finished[of _ _ "run_task env task"]) (simp_all add: run_task_not_scanning)
  show "delete_task scan_tasks tid = (error_response 400 Task_is_scanning, scan_tasks)
      \<and> snd (delete_task scan_tasks tid) tid = Some task
      \<and> \<not> is_scanning (run_task env task)
      \<and> end_time (run_task env task) \<noteq> None
      \<and> success (fst (delete_task (scan_network_thread env scan_tasks tid) tid))
      \<and> http_status (fst (delete_task (scan_network_thread env scan_tasks tid) tid)) = 200
      \<and> get_task_status (snd (delete_task (scan_network_thread env scan_tasks tid) tid)) tid
          = error_response 404 Task_missing_or_expired"
    using st run by (simp add: delete_running del run_task_not_scanning run_task_end_time get_after_delete)
qed

theorem delete_running_conflict_witness:
  "running_registry ''t1'' = Some (thread_start quiet_env quiet_task)
   \<and> is_scanning (thread_start quiet_env quiet_task)
   \<and> delete_task running_registry ''t1'' = (error_response 400 Task_is_scanning, running_registry)
   \<and> get_task_status
        (snd (delete_task (scan_network_thread quiet_env running_registry ''t1'') ''t1'')) ''t1''
       = error_response 404 Task_missing_or_expired"
  using delete_running_conflict [of running_registry "''t1''" "thread_start quiet_env quiet_task" quiet_env]
  by (simp add: running_registry_def thread_start_def)

subsection \<open>Creating a task\<close>

lemma collect_one_target: "same_target (collect_one th t r) t"
  by (simp add: collect_one_def same_target_def Let_def split: option.split)

lemma collect_target: "same_target (fst (collect th t fs)) t"
  by (induction th t fs rule: collect.induct) (use collect_one_target in \<open>auto simp: same_target_def\<close>)

lemma try_block_target: "same_target (fst (try_block env t)) t"
  using collect_target
  by (auto simp add: try_block_def Let_def same_target_def split: sum.split)

lemma except_block_target: "same_target (except_block r) (fst r)"
  by (cases r) (simp add: except_block_def same_target_def split: option.split)

lemma run_task_target: "same_target (run_task env t) t"
  using try_block_target[of env "thread_start env t"] except_block_target[of "try_block env (thread_start env t)"]
  by (simp add: run_task_def finally_sort_def finally_flags_def thread_body_def thread_start_def same_target_def)

lemma start_scan_stored:
  assumes "snd (start_scan env scan_tasks req new_id now) tid = Some t"
  shows "scan_tasks tid = Some t \<or> task_ok env t"
  using assms
  by (auto simp add: start_scan_def Let_def ScanTask_def task_ok_def split: sum.splits if_splits)

lemma apply_event_ok:
  assumes inv: "\<And>tid t. scan_tasks tid = Some t \<Longrightarrow> task_ok env t"
    and st: "apply_event env scan_tasks ev tid = Some t"
  shows "task_ok env t"
proof (cases ev)
  case (Create req new_id now)
  with st start_scan_stored[of env scan_tasks req new_id now tid t] inv show ?thesis by auto
next
  case (Run_thread x)
  show ?thesis
  proof (cases "scan_tasks x")
    case None
    with st Run_thread inv show ?thesis by (simp add: scan_network_thread_def)
  next
    case (Some task)
    show ?thesis
    proof (cases "tid = x")
      case True
      with st Run_thread Some have "t = run_task env task" by (simp add: scan_network_thread_def)
      moreover have "task_ok env task" using inv Some by blast
      ultimately show ?thesis using run_task_target[of env task] by (simp add: task_ok_def same_target_def)
    next
      case False
      with st Run_thread Some inv show ?thesis by (simp add: scan_network_thread_def)
    qed
  qed
next
  case (Delete x)
  with st inv show ?thesis by (auto simp add: delete_task_def split: option.splits if_splits)
next
  case (Cleanup now)
  with st inv show ?thesis by (auto simp add: cleanup_old_tasks_def split: option.splits if_splits)
qed

lemma foldl_events_ok:
  assumes "\<And>tid t. scan_tasks tid = Some t \<Longrightarrow> task_ok env t"
    and "foldl (apply_event env) scan_tasks events tid = Some t"
  shows "task_ok env t"
  using assms
proof (induction events arbitrary: scan_tasks tid t)
  case Nil
  then show ?case by simp
next
  case (Cons ev events)
  show ?case
  proof (rule Cons.IH[of "apply_event env scan_tasks ev" tid t])
    fix tid' t' assume "apply_event env scan_tasks ev tid' = Some t'"
    then show "task_ok env t'" using apply_event_ok[of scan_tasks env ev tid' t'] Cons.prems(1) by blast
  next
    show "foldl (apply_event env) (apply_event env scan_tasks ev) events tid = Some t"
      using Cons.prems(2) by simp
  qed
qed

lemma reject_network:
  assumes "ip_network env (requested_network req) = Inl msg"
  shows "snd (start_scan env scan_tasks req new_id now) = scan_tasks
         \<and> \<not> success (fst (start_scan env scan_tasks req new_id now))"
  using assms
  by (auto simp add: start_scan_def Let_def requested_network_def start_scan_except_def error_response_def
      split: sum.splits py_exc.splits)

lemma reject_port:
  assumes "requested_port env req = Inr p" "\<not> (1 \<le> p \<and> p \<le> 65535)"
  shows "snd (start_scan env scan_tasks req new_id now) = scan_tasks
         \<and> \<not> success (fst (start_scan env scan_tasks req new_id now))"
  using assms
  by (auto simp add: start_scan_def Let_def requested_port_def start_scan_except_def error_response_def
      split: sum.splits py_exc.splits)

lemma quiet_ip_network:
  "ip_network quiet_env ''10.0.0.0/30'' = Inr net_10_0_0_0_30"
  "ip_network quiet_env ''10.0.0.0/33'' = Inl ''does not appear to be an IPv4 or IPv6 network''"
  by (simp_all add: quiet_env_def)

lemma zero_threads_start:
  "start_scan quiet_env Map.empty zero_threads_request ''t1'' 0 =
     (\<lparr>http_status = 200, success = True, message = Task_created False,
       data = Some (ScanTask ''t1'' ''10.0.0.0/30'' 22 0 False 0)\<rparr>,
      [''t1'' \<mapsto> ScanTask ''t1'' ''10.0.0.0/30'' 22 0 False 0])"
  by (simp add: start_scan_def zero_threads_request_def py_int_def quiet_ip_network Let_def)

text \<open>
  Claim C9, amended. \<^verbatim>\<open>start_scan\<close> rejects a network that does not parse and a port
  outside 1 to 65535 before any task is stored, so every task that is ever in the
  registry has a network that parses and a port in that range. The worker concurrency
  is not checked when the task is created.
\<close>

theorem start_scan_validates:
  "(ip_network env (requested_network req) = Inl msg \<longrightarrow>
      snd (start_scan env scan_tasks req new_id now) = scan_tasks
      \<and> \<not> success (fst (start_scan env scan_tasks req new_id now)))
   \<and> (requested_port env req = Inr p \<and> \<not> (1 \<le> p \<and> p \<le> 65535) \<longrightarrow>
      snd (start_scan env scan_tasks req new_id now) = scan_tasks
      \<and> \<not> success (fst (start_scan env scan_tasks req new_id now)))
   \<and> (registry_after env events tid = Some t \<longrightarrow> task_ok env t)"
proof -
  have "task_ok env t" if "registry_after env events tid = Some t"
    using foldl_events_ok[of Map.empty env events tid t] that
    by (simp add: registry_after_def)
  then show ?thesis
    using reject_network[of env req msg scan_tasks new_id now]
      reject_port[of env req p scan_tasks new_id now]
    by blast
qed

theorem start_scan_validates_witness:
  "ip_network quiet_env (requested_network bad_network_request)
     = Inl ''does not appear to be an IPv4 or IPv6 network''
   \<and> snd (start_scan quiet_env Map.empty bad_network_request ''t1'' 0) = Map.empty
   \<and> requested_port quiet_env bad_port_request = Inr 70000
   \<and> snd (start_scan quiet_env Map.empty bad_port_request ''t1'' 0) = Map.empty
   \<and> registry_after quiet_env [Create zero_threads_request ''t1'' 0] ''t1''
       = Some (ScanTask ''t1'' ''10.0.0.0/30'' 22 0 False 0)
   \<and> task_ok quiet_env (ScanTask ''t1'' ''10.0.0.0/30'' 22 0 False 0)"
  using start_scan_validates [of quiet_env bad_network_request
      "''does not appear to be an IPv4 or IPv6 network''" Map.empty "''t1''" 0 70000 "[]" "''t1''"
      "ScanTask ''t1'' ''10.0.0.0/30'' 22 0 False 0"]
    start_scan_validates [of quiet_env bad_port_request
      "''x''" Map.empty "''t1''" 0 70000 "[Create zero_threads_request ''t1'' 0]" "''t1''"
      "ScanTask ''t1'' ''10.0.0.0/30'' 22 0 False 0"]
  by (simp add: requested_network_def requested_port_def bad_network_request_def
      bad_port_request_def zero_threads_request_def py_int_def quiet_ip_network
      registry_after_def zero_threads_start [unfolded zero_threads_request_def])

text \<open>
  Claim C9 as stated fails: a request with a worker concurrency of zero is accepted
  and its task is stored.
\<close>

theorem zero_threads_is_stored:
  "success (fst (start_scan quiet_env Map.empty zero_threads_request ''t1'' 0))
   \<and> map_option threads (registry_after quiet_env [Create zero_threads_request ''t1'' 0] ''t1'')
       = Some 0"
  by (simp add: registry_after_def zero_threads_start ScanTask_def)

subsection \<open>The reference-site stage of the prober\<close>

lemma sorted_sites: "sort_key priority test_sites = test_sites"
  by (simp add: test_sites_def)

lemma calls_probe_site: "calls (probe_site env c st s) = calls st @ [(cfg_type c, url s)]"
  by (simp add: probe_site_def Let_def split: get_result.split)

lemma calls_foldl:
  "calls (foldl (probe_site env c) st ss) = calls st @ map (\<lambda>s. (cfg_type c, url s)) ss"
  by (induction ss arbitrary: st) (simp_all add: calls_probe_site)

lemma working_probe_site:
  "is_working (info (probe_site env c st s)) = (is_working (info st) \<or> succeeds env (cfg_proxies c) s)"
  by (simp add: probe_site_def succeeds_def Let_def mark_site_def record_accessible_def record_geo_def
      split: get_result.split option.split)

lemma working_foldl:
  "is_working (info (foldl (probe_site env c) st ss)) =
     (is_working (info st) \<or> list_ex (succeeds env (cfg_proxies c)) ss)"
  by (induction ss arbitrary: st) (auto simp: working_probe_site)

lemma error_probe_site:
  "proxy_info.error (info (probe_site env c st s)) =
     (case requests_get env (url s) (cfg_proxies c) of
        Raised e \<Rightarrow> Some (except_text e) | Returned r \<Rightarrow> proxy_info.error (info st))"
  by (simp add: probe_site_def Let_def mark_site_def record_accessible_def record_geo_def
      split: get_result.split option.split)

lemma accessible_probe_site:
  "accessible_sites (info (probe_site env c st s)) =
     (if succeeds env (cfg_proxies c) s \<and> name s \<notin> set (accessible_sites (info st))
         \<and> name s \<noteq> ''IP Check''
      then accessible_sites (info st) @ [name s] else accessible_sites (info st))"
  by (simp add: probe_site_def succeeds_def Let_def mark_site_def record_accessible_def record_geo_def
      split: get_result.split option.split)

lemma proxies_probe_site:
  "working_proxies (probe_site env c st s) =
     (if succeeds env (cfg_proxies c) s then Some (cfg_proxies c) else working_proxies st)"
  by (simp add: probe_site_def succeeds_def Let_def split: get_result.split)

lemma score_probe_site:
  "quality_score (info (probe_site env c st s)) = quality_score (info st)
   \<and> ai_models (info (probe_site env c st s)) = ai_models (info st)"
  by (simp add: probe_site_def Let_def mark_site_def record_accessible_def record_geo_def
      split: get_result.split option.split)

lemma best_probe_site:
  "best_time (probe_site env c st s) =
     (case requests_get env (url s) (cfg_proxies c) of
        Raised e \<Rightarrow> best_time st
      | Returned r \<Rightarrow>
          if status_code r \<in> set [200, 204, 301, 302, 403]
             \<and> (best_time st = None \<or> elapsed r < the (best_time st))
          then Some (elapsed r) else best_time st)"
  by (simp add: probe_site_def Let_def split: get_result.split)

lemma time_probe_site:
  "response_time (info (probe_site env c st s)) =
     (case requests_get env (url s) (cfg_proxies c) of
        Raised e \<Rightarrow> response_time (info st)
      | Returned r \<Rightarrow>
          if status_code r \<in> set [200, 204, 301, 302, 403]
             \<and> (best_time st = None \<or> elapsed r < the (best_time st))
          then Some (py_round2 (elapsed r * 1000)) else response_time (info st))"
  by (simp add: probe_site_def Let_def mark_site_def record_accessible_def record_geo_def
      split: get_result.split option.split)

lemma probe_init_fields:
  "calls probe_init = []" "\<not> is_working (info probe_init)"
  "proxy_info.error (info probe_init) = None" "accessible_sites (info probe_init) = []"
  "best_time probe_init = None" "response_time (info probe_init) = None"
  "working_proxies probe_init = None" "quality_score (info probe_init) = 0"
  "ai_models (info probe_init) = None"
  by (simp_all add: probe_init_def proxy_info_init_def)

lemma probe_all_unfold:
  "probe_all env ip0 port0 =
     (let st = foldl (probe_site env \<lparr>cfg_type = ''http'', cfg_proxies = Proxies ''http'' ip0 port0\<rparr>)
                 probe_init test_sites
      in if list_ex (succeeds env (Proxies ''http'' ip0 port0)) test_sites then st
         else foldl (probe_site env \<lparr>cfg_type = ''socks5'', cfg_proxies = Proxies ''socks5'' ip0 port0\<rparr>)
                st test_sites)"
  by (simp add: probe_all_def proxy_configs_def sorted_sites Let_def working_foldl probe_init_fields
      del: foldl.simps)

lemma site_urls:
  "map (\<lambda>s. (''http'', url s)) test_sites = http_calls"
  "map (\<lambda>s. (''socks5'', url s)) test_sites = socks5_calls"
  by (simp_all add: test_sites_def http_calls_def socks5_calls_def)

lemma calls_probe_all:
  "calls (probe_all env ip0 port0) =
     (if list_ex (succeeds env (Proxies ''http'' ip0 port0)) test_sites
      then http_calls else http_calls @ socks5_calls)"
  by (simp add: probe_all_unfold Let_def calls_foldl probe_init_fields site_urls del: foldl.simps)

text \<open>
  Claim C5. The requests of the reference-site stage go through the HTTP configuration
  first: the three sites in ascending priority. When one of them succeeds the trace
  ends there, with all three sites probed and no request through SOCKS5; only when
  none succeeds do the same three sites follow through SOCKS5, in the same order.
\<close>

theorem protocol_order:
  "calls (probe_all env ip0 port0) =
     (if list_ex (succeeds env (Proxies ''http'' ip0 port0)) test_sites
      then [(''http'', ''https://ipapi.co/json/''),
            (''http'', ''https://www.google.com/generate_204''),
            (''http'', ''https://www.youtube.com'')]
      else [(''http'', ''https://ipapi.co/json/''),
            (''http'', ''https://www.google.com/generate_204''),
            (''http'', ''https://www.youtube.com''),
            (''socks5'', ''https://ipapi.co/json/''),
            (''socks5'', ''https://www.google.com/generate_204''),
            (''socks5'', ''https://www.youtube.com'')])
   \<and> map priority (sort_key priority test_sites) = [1, 2, 3]
   \<and> map url (sort_key priority test_sites) =
       [''https://ipapi.co/json/'', ''https://www.google.com/generate_204'',
        ''https://www.youtube.com'']"
  by (simp add: calls_probe_all http_calls_def socks5_calls_def sorted_sites)
     (simp add: test_sites_def)

lemma attempt_errors_append:
  "attempt_errors env ip0 port0 (xs @ ys) = attempt_errors env ip0 port0 xs @ attempt_errors env ip0 port0 ys"
  by (simp add: attempt_errors_def)

lemma attempt_errors_Cons:
  "attempt_errors env ip0 port0 ((ty, u) # xs) =
     (case requests_get env u (Proxies ty ip0 port0) of
        Raised e \<Rightarrow> [except_text e] | Returned r \<Rightarrow> []) @ attempt_errors env ip0 port0 xs"
  by (simp add: attempt_errors_def)

lemma error_foldl:
  assumes c: "cfg_proxies c = Proxies (cfg_type c) ip0 port0"
  shows "proxy_info.error (info (foldl (probe_site env c) st ss)) =
     (let errs = attempt_errors env ip0 port0 (map (\<lambda>s. (cfg_type c, url s)) ss)
      in if errs = [] then proxy_info.error (info st) else Some (last errs))"
proof (induction ss arbitrary: st)
  case Nil
  then show ?case by (simp add: attempt_errors_def)
next
  case (Cons s ss)
  show ?case
    by (cases "requests_get env (url s) (Proxies (cfg_type c) ip0 port0)")
       (simp_all add: Cons.IH error_probe_site c attempt_errors_Cons Let_def)
qed

lemma error_probe_all:
  "proxy_info.error (info (probe_all env ip0 port0)) =
     (let errs = attempt_errors env ip0 port0 (calls (probe_all env ip0 port0))
      in if errs = [] then None else Some (last errs))"
proof (cases "list_ex (succeeds env (Proxies ''http'' ip0 port0)) test_sites")
  case True
  have c: "calls (probe_all env ip0 port0) = http_calls"
    using True by (simp add: calls_probe_all)
  have p: "probe_all env ip0 port0 =
      foldl (probe_site env \<lparr>cfg_type = ''http'', cfg_proxies = Proxies ''http'' ip0 port0\<rparr>)
        probe_init test_sites"
    using True by (simp add: probe_all_unfold Let_def del: foldl.simps)
  show ?thesis
    unfolding c unfolding p
    using error_foldl[of "\<lparr>cfg_type = ''http'', cfg_proxies = Proxies ''http'' ip0 port0\<rparr>"
        ip0 port0 env probe_init test_sites]
    by (simp add: Let_def probe_init_fields site_urls del: foldl.simps)
next
  case False
  have c: "calls (probe_all env ip0 port0) = http_calls @ socks5_calls"
    using False by (simp add: calls_probe_all)
  have p: "probe_all env ip0 port0 =
      foldl (probe_site env \<lparr>cfg_type = ''socks5'', cfg_proxies = Proxies ''socks5'' ip0 port0\<rparr>)
        (foldl (probe_site env \<lparr>cfg_type = ''http'', cfg_proxies = Proxies ''http'' ip0 port0\<rparr>)
           probe_init test_sites) test_sites"
    using False by (simp add: probe_all_unfold Let_def del: foldl.simps)
  show ?thesis
    unfolding c unfolding p
    using error_foldl[of "\<lparr>cfg_type = ''http'', cfg_proxies = Proxies ''http'' ip0 port0\<rparr>"
        ip0 port0 env probe_init test_sites]
      error_foldl[of "\<lparr>cfg_type = ''socks5'', cfg_proxies = Proxies ''socks5'' ip0 port0\<rparr>"
        ip0 port0 env
        "foldl (probe_site env \<lparr>cfg_type = ''http'', cfg_proxies = Proxies ''http'' ip0 port0\<rparr>)
           probe_init test_sites" test_sites]
    by (simp add: Let_def probe_init_fields site_urls attempt_errors_append del: foldl.simps)
qed

lemma stages_keep:
  "proxy_info.error (score_stage (ai_stage env b st)) = proxy_info.error (info st)"
  "is_working (score_stage (ai_stage env b st)) = is_working (info st)"
  "accessible_sites (score_stage (ai_stage env b st)) = accessible_sites (info st)"
  "response_time (score_stage (ai_stage env b st)) = response_time (info st)"
  by (simp_all add: score_stage_def ai_stage_def Let_def split: option.split)

subsection \<open>The report of the scenario\<close>

lemma py_round2_upper: "py_round2 x \<le> x + 1 / 100"
proof -
  have f: "of_int \<lfloor>x * 100\<rfloor> \<le> x * 100" by (rule of_int_floor_le)
  have "py_round2 x * 100 \<le> of_int \<lfloor>x * 100\<rfloor> + 1"
    by (simp add: py_round2_def Let_def)
  with f have "py_round2 x * 100 \<le> x * 100 + 1" by linarith
  then show ?thesis by (simp add: field_simps)
qed

lemma py_round2_quarter: "py_round2 (1 / 4 * 1000) = 250"
  by (simp add: py_round2_def Let_def)

lemma scenario_state:
  assumes g: "requests_get env ''https://ipapi.co/json/'' (Proxies ''http'' ip0 port0) = Returned r1"
    and g1: "status_code r1 = 200" and g2: "elapsed r1 = 1 / 4"
    and b: "requests_get env ''https://www.google.com/generate_204'' (Proxies ''http'' ip0 port0) = Returned r2"
    and b1: "status_code r2 = 204"
    and m: "fails (requests_get env ''https://www.youtube.com'' (Proxies ''http'' ip0 port0))"
  shows "accessible_sites (info (probe_all env ip0 port0)) = [''Google'']"
    and "is_working (info (probe_all env ip0 port0))"
    and "working_proxies (probe_all env ip0 port0) = Some (Proxies ''http'' ip0 port0)"
    and "\<exists>t. response_time (info (probe_all env ip0 port0)) = Some t \<and> t < 300"
    and "ai_models (info (probe_all env ip0 port0)) = None"
proof -
  define c where "c = \<lparr>cfg_type = ''http'', cfg_proxies = Proxies ''http'' ip0 port0\<rparr>"
  define s1 where "s1 = test_sites ! 0"
  define s2 where "s2 = test_sites ! 1"
  define s3 where "s3 = test_sites ! 2"
  have ts: "test_sites = [s1, s2, s3]"
    by (simp add: test_sites_def s1_def s2_def s3_def)
  have names: "name s1 = ''IP Check''" "name s2 = ''Google''" "name s3 = ''YouTube''"
    and urls: "url s1 = ''https://ipapi.co/json/''" "url s2 = ''https://www.google.com/generate_204''"
      "url s3 = ''https://www.youtube.com''"
    by (simp_all add: test_sites_def s1_def s2_def s3_def)
  have cp: "cfg_proxies c = Proxies ''http'' ip0 port0" by (simp add: c_def)
  have ok1: "succeeds env (Proxies ''http'' ip0 port0) s1"
    and ok2: "succeeds env (Proxies ''http'' ip0 port0) s2"
    and no3: "\<not> succeeds env (Proxies ''http'' ip0 port0) s3"
    using g g1 b b1 m by (simp_all add: succeeds_def fails_def urls split: get_result.splits)
  have ex: "list_ex (succeeds env (Proxies ''http'' ip0 port0)) test_sites"
    unfolding ts using ok1 by simp
  have p: "probe_all env ip0 port0 =
      probe_site env c (probe_site env c (probe_site env c probe_init s1) s2) s3"
    using ex unfolding probe_all_unfold Let_def c_def [symmetric] by (simp add: ts)
  show "accessible_sites (info (probe_all env ip0 port0)) = [''Google'']"
    unfolding p using ok1 ok2 no3 by (simp add: accessible_probe_site names probe_init_fields cp)
  show "is_working (info (probe_all env ip0 port0))"
    unfolding p using ok1 by (simp add: working_probe_site cp)
  show "working_proxies (probe_all env ip0 port0) = Some (Proxies ''http'' ip0 port0)"
    unfolding p using ok1 ok2 no3 by (simp add: proxies_probe_site cp)
  show "ai_models (info (probe_all env ip0 port0)) = None"
    unfolding p by (simp add: score_probe_site probe_init_fields)
  define st1 where "st1 = probe_site env c probe_init s1"
  define st2 where "st2 = probe_site env c st1 s2"
  have er: "py_round2 (elapsed r1 * 1000) = 250"
    unfolding g2 by (rule py_round2_quarter)
  have b1': "best_time st1 = Some (1 / 4)"
    using g g1 g2 by (simp add: st1_def best_probe_site urls cp probe_init_fields)
  have r1': "response_time (info st1) = Some 250"
    using g g1 er by (simp add: st1_def time_probe_site urls cp probe_init_fields)
  have r2': "\<exists>t. response_time (info st2) = Some t \<and> t < 300"
  proof (cases "elapsed r2 < 1 / 4")
    case True
    then have "response_time (info st2) = Some (py_round2 (elapsed r2 * 1000))"
      using b b1 b1' by (simp add: st2_def time_probe_site urls cp)
    moreover have "py_round2 (elapsed r2 * 1000) < 300"
      using py_round2_upper[of "elapsed r2 * 1000"] True by linarith
    ultimately show ?thesis by blast
  next
    case False
    then have "response_time (info st2) = Some 250"
      using b b1 b1' r1' by (simp add: st2_def time_probe_site urls cp)
    then show ?thesis by simp
  qed
  have "response_time (info (probe_site env c st2 s3)) = response_time (info st2)"
    using m by (cases "requests_get env ''https://www.youtube.com'' (Proxies ''http'' ip0 port0)")
      (simp_all add: time_probe_site urls cp fails_def)
  then show "\<exists>t. response_time (info (probe_all env ip0 port0)) = Some t \<and> t < 300"
    unfolding p using r2' by (simp add: st1_def st2_def)
qed

lemma scenario_report:
  assumes g: "requests_get env ''https://ipapi.co/json/'' (Proxies ''http'' ip0 port0) = Returned r1"
    and g1: "status_code r1 = 200" and g2: "elapsed r1 = 1 / 4"
    and b: "requests_get env ''https://www.google.com/generate_204'' (Proxies ''http'' ip0 port0) = Returned r2"
    and b1: "status_code r2 = 204"
    and m: "fails (requests_get env ''https://www.youtube.com'' (Proxies ''http'' ip0 port0))"
    and a: "available_models_count (test_ai_model_availability env (Proxies ''http'' ip0 port0)) = 0"
  shows "accessible_sites (test_proxy_quality env ip0 port0 True) = [''Google'']
     \<and> quality_score (test_proxy_quality env ip0 port0 True) = 80
     \<and> quality_level (test_proxy_quality env ip0 port0 True) = ''good''"
proof -
  note st = scenario_state[OF g g1 g2 b b1 m]
  obtain t where t: "response_time (info (probe_all env ip0 port0)) = Some t" "t < 300"
    using st(4) by blast
  define q where "q = ai_stage env True (probe_all env ip0 port0)"
  have q: "q = (info (probe_all env ip0 port0))
      \<lparr>ai_models := Some (test_ai_model_availability env (Proxies ''http'' ip0 port0))\<rparr>"
    using st(2,3) by (simp add: q_def ai_stage_def)
  have "is_working q" "site_points q = 20" "time_points q = 30" "ai_points q = 0"
    using st(1,2) t a by (simp_all add: q site_points_def time_points_def ai_points_def Let_def)
  then have "quality_score (score_stage q) = 80" "quality_level (score_stage q) = ''good''"
    "accessible_sites (score_stage q) = [''Google'']"
    using st(1) by (simp_all add: score_stage_def Let_def q)
  then show ?thesis by (simp add: test_proxy_quality_def q_def)
qed

lemma demo_requests:
  "requests_get demo_env ''https://ipapi.co/json/'' (Proxies ''http'' 167772162 7890) =
     Returned \<lparr>status_code = 200, elapsed = 1 / 4, json = Some demo_geo, body_text = []\<rparr>"
  "requests_get demo_env ''https://www.google.com/generate_204'' (Proxies ''http'' 167772162 7890) =
     Returned \<lparr>status_code = 204, elapsed = 2 / 5, json = None, body_text = []\<rparr>"
  "requests_get demo_env ''https://www.youtube.com'' (Proxies ''http'' 167772162 7890) = Raised ReadTimeout"
  by (simp_all add: demo_env_def demo_get_def)

lemma demo_endpoint_requests:
  "requests_get demo_env (ep_url ep) prx = Raised ReadTimeout" if "ep \<in> set ai_endpoints"
  using that by (auto simp add: demo_env_def demo_get_def ai_endpoints_def)

lemma available_timeout:
  "available (check_endpoint (Raised ReadTimeout) ep entry) = available entry"
  by (simp add: check_endpoint_def isinstance_Timeout_def)

lemma count_update_same:
  "map_of m k = Some v \<Longrightarrow> available v' = available v \<Longrightarrow>
     available_models_count (AList.update k v' m) = available_models_count m"
  by (induction m) (auto simp add: available_models_count_def)

lemma demo_ai_step:
  assumes "ep \<in> set ai_endpoints"
  shows "available_models_count (ai_step demo_env prx m ep) = available_models_count m"
  using count_update_same[of m "ep_name ep" _ "check_endpoint (Raised ReadTimeout) ep _"]
  by (simp add: ai_step_def demo_endpoint_requests[OF assms] available_timeout split: option.split)

lemma demo_ai_foldl:
  "set eps \<subseteq> set ai_endpoints \<Longrightarrow>
     available_models_count (foldl (ai_step demo_env prx) m eps) = available_models_count m"
  by (induction eps arbitrary: m) (simp_all add: demo_ai_step)

lemma demo_no_endpoint:
  "available_models_count (test_ai_model_availability demo_env prx) = 0"
  unfolding test_ai_model_availability_def
  by (subst demo_ai_foldl) (simp_all add: available_models_count_def ai_availability_init_def)

lemma demo_report_values:
  "accessible_sites (test_proxy_quality demo_env 167772162 7890 True) = [''Google'']
   \<and> quality_score (test_proxy_quality demo_env 167772162 7890 True) = 80
   \<and> quality_level (test_proxy_quality demo_env 167772162 7890 True) = ''good''"
  by (rule scenario_report[OF demo_requests(1) _ _ demo_requests(2)])
     (simp_all add: demo_requests fails_def demo_no_endpoint)

text \<open>
  Claim C3, amended. When the geolocation probe answers 200 after 250 ms, the beacon
  answers 204, the media site fails and no named endpoint is available, the report
  lists one accessible site (the beacon; the geolocation probe is not counted), the
  score is 30 + 20 + 30 = 80 and the level is \<open>good\<close>.
\<close>

theorem scenario_scores_80:
  assumes "requests_get env ''https://ipapi.co/json/'' (Proxies ''http'' ip0 port0) = Returned r1"
    and "status_code r1 = 200" and "elapsed r1 = 1 / 4"
    and "requests_get env ''https://www.google.com/generate_204'' (Proxies ''http'' ip0 port0) = Returned r2"
    and "status_code r2 = 204"
    and "fails (requests_get env ''https://www.youtube.com'' (Proxies ''http'' ip0 port0))"
    and "available_models_count (test_ai_model_availability env (Proxies ''http'' ip0 port0)) = 0"
  shows "accessible_sites (test_proxy_quality env ip0 port0 True) = [''Google'']
     \<and> quality_score (test_proxy_quality env ip0 port0 True) = 30 + 20 + 30
     \<and> quality_level (test_proxy_quality env ip0 port0 True) = ''good''"
  using scenario_report[OF assms] by simp

theorem scenario_scores_80_witness:
  "requests_get demo_env ''https://ipapi.co/json/'' (Proxies ''http'' 167772162 7890) =
     Returned \<lparr>status_code = 200, elapsed = 1 / 4, json = Some demo_geo, body_text = []\<rparr>
   \<and> requests_get demo_env ''https://www.google.com/generate_204'' (Proxies ''http'' 167772162 7890) =
     Returned \<lparr>status_code = 204, elapsed = 2 / 5, json = None, body_text = []\<rparr>
   \<and> fails (requests_get demo_env ''https://www.youtube.com'' (Proxies ''http'' 167772162 7890))
   \<and> available_models_count (test_ai_model_availability demo_env (Proxies ''http'' 167772162 7890)) = 0
   \<and> accessible_sites (test_proxy_quality demo_env 167772162 7890 True) = [''Google'']
   \<and> quality_score (test_proxy_quality demo_env 167772162 7890 True) = 80
   \<and> quality_level (test_proxy_quality demo_env 167772162 7890 True) = ''good''"
  using scenario_scores_80 [of demo_env 167772162 7890
      "\<lparr>status_code = 200, elapsed = 1 / 4, json = Some demo_geo, body_text = []\<rparr>"
      "\<lparr>status_code = 204, elapsed = 2 / 5, json = None, body_text = []\<rparr>"]
  by (simp add: demo_requests fails_def demo_no_endpoint)

text \<open>
  Claim C3 as stated fails on the candidate 10.0.0.2:7890: the report has one
  accessible site, not two, a score of 80, not 85, and the level \<open>good\<close>.
\<close>

theorem scenario_not_excellent:
  "length (accessible_sites (test_proxy_quality demo_env 167772162 7890 True)) = 1
   \<and> quality_score (test_proxy_quality demo_env 167772162 7890 True) = 80
   \<and> quality_level (test_proxy_quality demo_env 167772162 7890 True) = ''good''
   \<and> \<not> (length (accessible_sites (test_proxy_quality demo_env 167772162 7890 True)) = 2
         \<and> quality_score (test_proxy_quality demo_env 167772162 7890 True) = 85
         \<and> quality_level (test_proxy_quality demo_env 167772162 7890 True) = ''excellent'')"
  using demo_report_values by simp

lemma demo_working: "is_working (test_proxy_quality demo_env 167772162 7890 True)"
  unfolding test_proxy_quality_def stages_keep
  by (rule scenario_state(2)[OF demo_requests(1) _ _ demo_requests(2)])
     (simp_all add: demo_requests fails_def)

lemma demo_calls: "calls (probe_all demo_env 167772162 7890) = http_calls"
proof -
  have "succeeds demo_env (Proxies ''http'' 167772162 7890) (test_sites ! 0)"
    by (simp add: succeeds_def test_sites_def demo_requests)
  then have "list_ex (succeeds demo_env (Proxies ''http'' 167772162 7890)) test_sites"
    by (simp add: test_sites_def)
  then show ?thesis by (simp add: calls_probe_all)
qed

lemma demo_errors:
  "attempt_errors demo_env 167772162 7890 http_calls = [''Request timeout'']"
  by (simp add: http_calls_def attempt_errors_Cons demo_requests except_text_def isinstance_Timeout_def)
     (simp add: attempt_errors_def)

text \<open>
  Claim C10. The \<open>error\<close> field of a report is the category of the last attempt that
  raised, whatever succeeded before or after it; the candidate 10.0.0.2:7890 gives a
  report that is working and carries the error of its failed media-site attempt.
\<close>

theorem error_is_last_failure:
  "proxy_info.error (test_proxy_quality env ip0 port0 b) =
     (let errs = attempt_errors env ip0 port0 (calls (probe_all env ip0 port0))
      in if errs = [] then None else Some (last errs))
   \<and> is_working (test_proxy_quality demo_env 167772162 7890 True)
   \<and> proxy_info.error (test_proxy_quality demo_env 167772162 7890 True) = Some ''Request timeout''"
proof -
  have e: "proxy_info.error (test_proxy_quality env' ip' port' b') =
     (let errs = attempt_errors env' ip' port' (calls (probe_all env' ip' port'))
      in if errs = [] then None else Some (last errs))" for env' ip' port' b'
    unfolding test_proxy_quality_def stages_keep by (rule error_probe_all)
  have "proxy_info.error (test_proxy_quality demo_env 167772162 7890 True) = Some ''Request timeout''"
    unfolding e demo_calls demo_errors by simp
  with e demo_working show ?thesis by blast
qed

subsection \<open>The scan thread on 10.0.0.0/30\<close>

lemma num_addresses_30: "num_addresses net_10_0_0_0_30 = 4"
  by (simp add: num_addresses_def host_bits_def max_prefixlen_def net_10_0_0_0_30_def)

lemma hosts_30: "hosts net_10_0_0_0_30 = [167772161, 167772162]"
proof -
  have "[1 ..< 3] = [1, 2::nat]" by (simp add: upt_rec)
  then show ?thesis
    by (simp add: hosts_def num_addresses_def host_bits_def max_prefixlen_def net_10_0_0_0_30_def)
qed

lemma quiet_scan_port: "scan_port quiet_env ip0 port0 cq = Inr None"
  by (simp add: scan_port_def scan_port_try_def quiet_env_def)

lemma quiet_try_block:
  "try_block quiet_env (thread_start quiet_env quiet_task) =
     ((thread_start quiet_env quiet_task)\<lparr>total := 4, scanned := 2, progress := 50\<rparr>, None)"
proof -
  have net: "ip_network quiet_env ''10.0.0.0/30'' = Inr net_10_0_0_0_30"
    by (simp add: quiet_env_def)
  show ?thesis
    by (simp add: try_block_def thread_start_def quiet_task_def ScanTask_def net num_addresses_30
        hosts_30 quiet_scan_port collect_one_def Let_def)
qed

lemma quiet_run:
  "run_task quiet_env quiet_task =
     quiet_task\<lparr>is_scanning := False, progress := 50, total := 4, scanned := 2,
       start_time := Some ''2024-01-01 00:00:00'', end_time := Some ''2024-01-01 00:00:02''\<rparr>"
  unfolding run_task_def thread_body_def quiet_try_block
  by (simp add: except_block_def finally_flags_def finally_sort_def thread_start_def
      quiet_task_def ScanTask_def quiet_env_def)

text \<open>
  Claim C1 at the network 10.0.0.0/30 with no host accepting connections: the thread
  enumerates the two usable hosts and the results stay empty, but \<open>total\<close> is 4, the
  number of all addresses of the network.
\<close>

theorem total_counts_all_addresses:
  "total (run_task quiet_env quiet_task) = 4
   \<and> length (hosts net_10_0_0_0_30) = 2
   \<and> results (run_task quiet_env quiet_task) = []
   \<and> scan_task.error (run_task quiet_env quiet_task) = None"
  unfolding quiet_run hosts_30
  by (simp add: quiet_task_def ScanTask_def)

text \<open>
  Claim C2 at the same task: when the thread has ended, every unit has been collected
  and \<open>scanned\<close> is 2, while \<open>total\<close> is 4 and \<open>progress\<close> stops at 50.
\<close>

theorem scanned_stops_below_total:
  "\<not> is_scanning (run_task quiet_env quiet_task)
   \<and> end_time (run_task quiet_env quiet_task) = Some ''2024-01-01 00:00:02''
   \<and> scanned (run_task quiet_env quiet_task) = 2
   \<and> total (run_task quiet_env quiet_task) = 4
   \<and> progress (run_task quiet_env quiet_task) = 50"
  unfolding quiet_run
  by simp

subsection \<open>The end of the thread\<close>

lemma score_foldl:
  "quality_score (info (foldl (probe_site env c) st ss)) = quality_score (info st)"
  by (induction ss arbitrary: st) (simp_all add: score_probe_site)

lemma working_probe_all:
  "is_working (info (probe_all env ip0 port0)) =
     (list_ex (succeeds env (Proxies ''http'' ip0 port0)) test_sites
      \<or> list_ex (succeeds env (Proxies ''socks5'' ip0 port0)) test_sites)"
  by (simp add: probe_all_unfold Let_def working_foldl probe_init_fields del: foldl.simps)

lemma score_probe_all: "quality_score (info (probe_all env ip0 port0)) = 0"
  by (simp add: probe_all_unfold Let_def score_foldl probe_init_fields del: foldl.simps)

lemma not_working_score:
  "\<not> is_working (info (probe_all env ip0 port0)) \<Longrightarrow>
     quality_score (test_proxy_quality env ip0 port0 b) = 0"
  by (simp add: test_proxy_quality_def score_stage_def ai_stage_def score_probe_all
      split: option.split)

lemma dead_host_score: "quality_score (test_proxy_quality demo_env 167772161 7890 True) = 0"
proof -
  have "\<not> succeeds demo_env (Proxies ty 167772161 7890) s" for ty s
    by (simp add: succeeds_def demo_env_def demo_get_def)
  then have "\<not> is_working (info (probe_all demo_env 167772161 7890))"
    by (simp add: working_probe_all list_ex_iff)
  then show ?thesis by (rule not_working_score)
qed

lemma both_open_fields:
  "http both_open_env = demo_env" "ended_at both_open_env = ''2024-01-01 00:00:02''"
  "found_at both_open_env ip0 = ''2024-01-01 00:00:01''"
  "connect_ex both_open_env ip0 port0 = Connect_ex 0"
  "ip_network both_open_env ''10.0.0.0/30'' = Inr net_10_0_0_0_30"
  "started_at both_open_env = ''2024-01-01 00:00:00''"
  by (simp_all add: both_open_env_def quiet_env_def)

lemma both_open_scan_port: "scan_port both_open_env ip0 7890 True = Inr (Some (found ip0))"
  using scan_port_open[of both_open_env ip0 7890 True]
  by (simp add: both_open_fields found_def)

lemma found_scores:
  "get_quality_score (found 167772161) = 0" "get_quality_score (found 167772162) = 80"
  using demo_report_values
  by (simp_all add: get_quality_score_def found_def dead_host_score)

lemma quality_try_block:
  "try_block both_open_env (thread_start both_open_env quality_task) =
     ((thread_start both_open_env quality_task)
        \<lparr>total := 4, scanned := 2, progress := 50,
         results := [found 167772161, found 167772162]\<rparr>, None)"
  by (simp add: try_block_def thread_start_def quality_task_def ScanTask_def both_open_fields
      num_addresses_30 hosts_30 both_open_scan_port collect_one_def Let_def)

lemma quality_body:
  "thread_body both_open_env quality_task =
     (thread_start both_open_env quality_task)
        \<lparr>total := 4, scanned := 2, progress := 50,
         results := [found 167772161, found 167772162]\<rparr>"
  unfolding thread_body_def quality_try_block by (simp add: except_block_def)

lemma sort_two:
  "sort_key (\<lambda>x. - get_quality_score x) [found 167772161, found 167772162]
     = [found 167772162, found 167772161]"
  by (simp add: found_scores)

text \<open>
  Claim C6 at the quality task on 10.0.0.0/30 with both hosts open. After the two
  assignments of the \<^verbatim>\<open>finally\<close> block the task is no longer scanning and has its end
  time, with the results in the order of collection; the sort that follows in the same
  block then reorders them by score. The whole thread is these steps in this order.
\<close>

theorem sort_after_terminal:
  "\<not> is_scanning (finally_flags both_open_env (thread_body both_open_env quality_task))
   \<and> end_time (finally_flags both_open_env (thread_body both_open_env quality_task))
       = Some ''2024-01-01 00:00:02''
   \<and> map ip (results (finally_flags both_open_env (thread_body both_open_env quality_task)))
       = [167772161, 167772162]
   \<and> map ip (results (finally_sort
        (finally_flags both_open_env (thread_body both_open_env quality_task))))
       = [167772162, 167772161]
   \<and> run_task both_open_env quality_task
       = finally_sort (finally_flags both_open_env (thread_body both_open_env quality_task))"
proof -
  let ?t = "finally_flags both_open_env (thread_body both_open_env quality_task)"
  have r: "results ?t = [found 167772161, found 167772162]"
    and c: "check_proxy_quality ?t"
    and f: "\<not> is_scanning ?t" "end_time ?t = Some ''2024-01-01 00:00:02''"
    unfolding quality_body
    by (simp_all add: finally_flags_def thread_start_def quality_task_def ScanTask_def
        both_open_fields)
  have s: "results (finally_sort ?t) = [found 167772162, found 167772161]"
    using c by (simp add: finally_sort_def r sort_two del: sort_key_simps)
  have i: "map ip [found 167772161, found 167772162] = [167772161, 167772162]"
    "map ip [found 167772162, found 167772161] = [167772162, 167772161]"
    by (simp_all add: found_def)
  show ?thesis
    unfolding r s i using f by (simp add: run_task_def)
qed

subsection \<open>Counters of the thread, tasks in the registry\<close>

lemma collect_one_counts:
  "scanned (collect_one th t r) = scanned t + 1"
  "progress (collect_one th t r) = (scanned (collect_one th t r) * 100) div th"
  "total (collect_one th t r) = total t"
  "scan_task.error (collect_one th t r) = scan_task.error t"
  by (simp_all add: collect_one_def Let_def split: option.split)

lemma collect_scanned_mono: "scanned t \<le> scanned (fst (collect th t fs))"
proof (induction th t fs rule: collect.induct)
  case (3 total_hosts task result futures)
  then show ?case by (simp add: collect_one_counts)
qed simp_all

text \<open>
  Each collected unit adds one to \<open>scanned\<close> and sets \<open>progress\<close> to the integer part of
  \<open>scanned * 100 / total_hosts\<close>; over the loop \<open>scanned\<close> never decreases.
\<close>

theorem progress_follows_scanned:
  "scanned (collect_one th t r) = scanned t + 1
   \<and> progress (collect_one th t r) = (scanned (collect_one th t r) * 100) div th
   \<and> scanned t \<le> scanned (fst (collect th t fs))"
  by (simp add: collect_one_counts collect_scanned_mono)

lemma collect_all_returned:
  "collect th t (map (\<lambda>x. Inr (f x)) xs) = (foldl (collect_one th) t (map f xs), None)"
  by (induction xs arbitrary: t) simp_all

lemma foldl_collect_counts:
  "scanned (foldl (collect_one th) t rs) = scanned t + int (length rs)
   \<and> total (foldl (collect_one th) t rs) = total t
   \<and> scan_task.error (foldl (collect_one th) t rs) = scan_task.error t"
  by (induction rs arbitrary: t) (simp_all add: collect_one_counts)

lemma scan_port_unit: "scan_port env ip0 p c = Inr (unit_result env p c ip0)"
  by (simp add: scan_port_def unit_result_def split: sum.split option.split)

lemma hosts_count_ipv4:
  assumes "version n = IPv4" "2 \<le> host_bits n"
  shows "num_addresses n = length (hosts n) + 2"
proof -
  have "(2::nat) ^ 2 \<le> 2 ^ host_bits n" using assms(2) by (rule power_increasing) simp
  then have "4 \<le> num_addresses n" by (simp add: num_addresses_def)
  then show ?thesis using assms by (simp add: hosts_def)
qed

text \<open>
  For a task whose network parses and whose worker count is positive, the thread ends
  with \<open>total\<close> the number of all addresses of the network and \<open>scanned\<close> advanced by
  the number of hosts enumerated; for an IPv4 network with at least two host bits the
  two differ by the network and the broadcast address.
\<close>

theorem total_is_num_addresses:
  "(ip_network env (network task) = Inr n \<and> 0 < threads task \<longrightarrow>
      total (run_task env task) = int (num_addresses n)
      \<and> scanned (run_task env task) = scanned task + int (length (hosts n))
      \<and> scan_task.error (run_task env task) = scan_task.error task)
   \<and> (version n = IPv4 \<and> 2 \<le> host_bits n \<longrightarrow> num_addresses n = length (hosts n) + 2)"
proof -
  have "total (run_task env task) = int (num_addresses n)
      \<and> scanned (run_task env task) = scanned task + int (length (hosts n))
      \<and> scan_task.error (run_task env task) = scan_task.error task"
    if p: "ip_network env (network task) = Inr n" and th: "0 < threads task"
  proof -
    have "try_block env (thread_start env task) =
        (foldl (collect_one (int (num_addresses n)))
           ((thread_start env task)\<lparr>total := int (num_addresses n)\<rparr>)
           (map (unit_result env (scan_task.port task) (check_proxy_quality task)) (hosts n)), None)"
      using p th
      by (simp add: try_block_def thread_start_def Let_def scan_port_unit collect_all_returned
          del: foldl.simps)
    then show ?thesis
      by (simp add: run_task_def thread_body_def except_block_def finally_flags_def finally_sort_def
          foldl_collect_counts thread_start_def del: foldl.simps)
  qed
  then show ?thesis using hosts_count_ipv4[of n] by blast
qed

theorem total_is_num_addresses_witness:
  "ip_network quiet_env (network quiet_task) = Inr net_10_0_0_0_30 \<and> 0 < threads quiet_task
   \<and> total (run_task quiet_env quiet_task) = 4
   \<and> scanned (run_task quiet_env quiet_task) = 2
   \<and> version net_10_0_0_0_30 = IPv4 \<and> 2 \<le> host_bits net_10_0_0_0_30
   \<and> length (hosts net_10_0_0_0_30) = 2"
  using total_is_num_addresses [of quiet_env quiet_task net_10_0_0_0_30]
  by (simp add: num_addresses_30 hosts_30 quiet_ip_network)
     (simp add: quiet_task_def ScanTask_def quiet_ip_network net_10_0_0_0_30_def host_bits_def
        max_prefixlen_def)

text \<open>
  The handlers and the cleanup never change a task they keep: apart from the thread of
  the task and the creation of a task under the same id, a task found in the registry
  after an event is the task that was there before.
\<close>

theorem handlers_keep_tasks:
  "(\<forall>x. ev \<noteq> Run_thread x) \<and> (\<forall>req now. ev \<noteq> Create req tid now)
     \<and> apply_event env scan_tasks ev tid = Some t
   \<longrightarrow> scan_tasks tid = Some t"
proof (cases ev)
  case (Create req new_id now)
  then show ?thesis
    by (auto simp add: start_scan_def Let_def split: sum.splits if_splits)
next
  case (Run_thread x)
  then show ?thesis by simp
next
  case (Delete x)
  then show ?thesis by (auto simp add: delete_task_def split: option.splits if_splits)
next
  case (Cleanup now)
  then show ?thesis by (auto simp add: cleanup_old_tasks_def split: option.splits if_splits)
qed

theorem handlers_keep_tasks_witness:
  "(\<forall>x. Cleanup 10 \<noteq> Run_thread x) \<and> (\<forall>req now. Cleanup 10 \<noteq> Create req ''t1'' now)
   \<and> apply_event quiet_env running_registry (Cleanup 10) ''t1''
       = Some (thread_start quiet_env quiet_task)
   \<and> running_registry ''t1'' = Some (thread_start quiet_env quiet_task)"
  using handlers_keep_tasks [of "Cleanup 10" "''t1''" quiet_env running_registry
      "thread_start quiet_env quiet_task"]
  by (simp add: running_registry_def cleanup_old_tasks_def thread_start_def)

subsection \<open>The latency of a working report\<close>

lemma timed_probe_site: "timed st \<Longrightarrow> timed (probe_site env c st s)"
  by (cases "requests_get env (url s) (cfg_proxies c)")
     (auto simp add: timed_def best_probe_site time_probe_site working_probe_site succeeds_def)

lemma timed_foldl: "timed st \<Longrightarrow> timed (foldl (probe_site env c) st ss)"
  by (induction ss arbitrary: st) (simp_all add: timed_probe_site)

lemma timed_probe_all: "timed (probe_all env ip0 port0)"
proof -
  have "timed probe_init" by (simp add: timed_def probe_init_fields)
  then show ?thesis
    by (simp add: probe_all_unfold Let_def timed_foldl del: foldl.simps)
qed

text \<open>
  A report that is working always carries a latency: the first successful probe sets
  \<open>response_time\<close>, and nothing resets it.
\<close>

theorem working_report_has_latency:
  "\<not> is_working (test_proxy_quality env ip0 port0 b)
   \<or> (\<exists>t. response_time (test_proxy_quality env ip0 port0 b) = Some t)"
  using timed_probe_all[of env ip0 port0]
  unfolding test_proxy_quality_def stages_keep
  by (auto simp add: timed_def)

theorem working_report_has_latency_witness:
  "is_working (test_proxy_quality demo_env 167772162 7890 True)
   \<and> (\<exists>t. response_time (test_proxy_quality demo_env 167772162 7890 True) = Some t)"
  using working_report_has_latency [of demo_env 167772162 7890 True] demo_working
  by simp

end
